theory Spec2Isabelle
  imports Main
begin

chapter \<open>The post model: saving, events, permissions and adding\<close>

text \<open>
  A shallow embedding of the post model's \<open>onSaving\<close>, \<open>onUpdated\<close>, \<open>permissible\<close>
  and \<open>add\<close>. A Bookshelf model is a record of its current and previous attributes;
  the hooks are functions from models to models, a rejection is a value that carries the
  error together with the model as it stands; everything the post model calls but does
  not define is a field of one environment record.
\<close>

section \<open>JavaScript values\<close>

text \<open>
  The post model is written in JavaScript: attribute values are untyped. A value is one
  of the JSON-like shapes below. Numbers are modelled as integers (timestamps, ids);
  a \<open>Date\<close> carries its epoch milliseconds, \<open>None\<close> for an invalid date. An object
  keeps its entries in insertion order.
\<close>

datatype jsval =
    Undefined
  | Null
  | Bool bool
  | Num int
  | Str string
  | Date "int option"
  | Arr "jsval list"
  | Obj "(string \<times> jsval) list"

text \<open>An attribute bag: the value of a missing key is \<open>undefined\<close>.\<close>

type_synonym object = "string \<Rightarrow> jsval"

text \<open>
  The errors a hook rejects with. A ValidationError or NoPermissionError carries the key
  of its translated message (the message itself where the source writes it out); the
  parameters of the translation are left out.
\<close>

datatype error =
    ValidationError string
  | NoPermissionError string
  | TypeError

text \<open>\<open>!!v\<close>: the values JavaScript treats as false are undefined, null, false, 0 and ''.\<close>

fun truthy :: "jsval \<Rightarrow> bool" where
  "truthy Undefined = False"
| "truthy Null = False"
| "truthy (Bool b) = b"
| "truthy (Num n) = (n \<noteq> 0)"
| "truthy (Str s) = (s \<noteq> [])"
| "truthy (Date d) = True"
| "truthy (Arr xs) = True"
| "truthy (Obj kvs) = True"

text \<open>\<open>a || b\<close> on values.\<close>

definition js_or :: "jsval \<Rightarrow> jsval \<Rightarrow> jsval" where
  "js_or a b = (if truthy a then a else b)"

text \<open>
  \<open>a === b\<close>: primitives compare by value. Dates, arrays and objects compare by
  reference; the two sides compared in this file never share a reference (one comes from
  the request or the current attributes, the other from the stored copy), so the
  comparison is false for them.
\<close>

fun strict_eq :: "jsval \<Rightarrow> jsval \<Rightarrow> bool" where
  "strict_eq Undefined Undefined = True"
| "strict_eq Null Null = True"
| "strict_eq (Bool a) (Bool b) = (a = b)"
| "strict_eq (Num a) (Num b) = (a = b)"
| "strict_eq (Str a) (Str b) = (a = b)"
| "strict_eq a b = False"

text \<open>Decimal digits of a number, for \<open>String(n)\<close>.\<close>

fun digits :: "nat \<Rightarrow> string" where
  "digits n =
     (if n < 10 then [char_of (48 + n)]
      else digits (n div 10) @ [char_of (48 + n mod 10)])"

definition show_int :: "int \<Rightarrow> string" where
  "show_int i = (if i < 0 then CHR ''-'' # digits (nat (- i)) else digits (nat i))"

fun join :: "string \<Rightarrow> string list \<Rightarrow> string" where
  "join sep [] = []"
| "join sep [x] = x"
| "join sep (x # y # ys) = x @ sep @ join sep (y # ys)"

text \<open>
  \<open>String(v)\<close>. How a date prints depends on the host's time zone, so the formatter
  is a parameter. Inside an array, null and undefined print as the empty string.
\<close>

fun js_String :: "(int option \<Rightarrow> string) \<Rightarrow> jsval \<Rightarrow> string" where
  "js_String fmt Undefined = ''undefined''"
| "js_String fmt Null = ''null''"
| "js_String fmt (Bool b) = (if b then ''true'' else ''false'')"
| "js_String fmt (Num n) = show_int n"
| "js_String fmt (Str s) = s"
| "js_String fmt (Date d) = fmt d"
| "js_String fmt (Arr xs) =
     join '','' (map (\<lambda>x. if x = Undefined \<or> x = Null then [] else js_String fmt x) xs)"
| "js_String fmt (Obj kvs) = ''[object Object]''"

text \<open>
  lodash's \<open>_.toString\<close>: the empty string for null and undefined; an array joins the
  conversions of its elements (where null prints as \<open>null\<close>).
\<close>

fun baseToString :: "(int option \<Rightarrow> string) \<Rightarrow> jsval \<Rightarrow> string" where
  "baseToString fmt (Arr xs) = join '','' (map (baseToString fmt) xs)"
| "baseToString fmt v = js_String fmt v"

definition lodash_toString :: "(int option \<Rightarrow> string) \<Rightarrow> jsval \<Rightarrow> string" where
  "lodash_toString fmt v = (if v = Undefined \<or> v = Null then [] else baseToString fmt v)"

text \<open>\<open>s.trim()\<close>, on the ASCII white space characters.\<close>

definition is_space :: "char \<Rightarrow> bool" where
  "is_space c = (c = CHR '' '' \<or> c = CHR 0x09 \<or> c = CHR 0x0A \<or> c = CHR 0x0B
                 \<or> c = CHR 0x0C \<or> c = CHR 0x0D)"

definition trim :: "string \<Rightarrow> string" where
  "trim s = rev (dropWhile is_space (rev (dropWhile is_space s)))"

text \<open>\<open>o[k]\<close> on an object literal's own entries.\<close>

definition lookup :: "(string \<times> jsval) list \<Rightarrow> string \<Rightarrow> jsval" where
  "lookup kvs k = (case map_of kvs k of None \<Rightarrow> Undefined | Some v \<Rightarrow> v)"

text \<open>
  \<open>v.name\<close>: reading a property of undefined or null throws a TypeError; a primitive
  or an array has no such property of its own.
\<close>

fun member_name :: "jsval \<Rightarrow> error + jsval" where
  "member_name Undefined = Inl TypeError"
| "member_name Null = Inl TypeError"
| "member_name (Obj kvs) = Inr (lookup kvs ''name'')"
| "member_name v = Inr Undefined"

text \<open>The elements lodash's \<open>_.each\<close> and \<open>_.values\<close> visit.\<close>

fun elements :: "jsval \<Rightarrow> jsval list" where
  "elements (Arr xs) = xs"
| "elements (Obj kvs) = map snd kvs"
| "elements (Str s) = map (\<lambda>c. Str [c]) s"
| "elements v = []"

text \<open>\<open>_.isEmpty\<close>: true for everything but a non-empty string, array or object.\<close>

fun isEmpty :: "jsval \<Rightarrow> bool" where
  "isEmpty (Arr xs) = (xs = [])"
| "isEmpty (Obj kvs) = (kvs = [])"
| "isEmpty (Str s) = (s = [])"
| "isEmpty v = True"

section \<open>The Bookshelf model\<close>

text \<open>
  A model instance holds its current attributes and the attributes as they were when it
  was last fetched or saved. \<open>model.related(...)\<close> reads the loaded relations: the tag
  and author models and the id of the attached \<open>posts_meta\<close> row.
\<close>

record model =
  model_id :: jsval
  attributes :: object
  previousAttributes :: object
  related_tags :: "jsval list"
  related_authors :: "jsval list"
  related_posts_meta_id :: jsval

definition get :: "model \<Rightarrow> string \<Rightarrow> jsval" where
  "get m k = attributes m k"

definition previous :: "model \<Rightarrow> string \<Rightarrow> jsval" where
  "previous m k = previousAttributes m k"

definition set_attr :: "model \<Rightarrow> string \<Rightarrow> jsval \<Rightarrow> model" where
  "set_attr m k v = m\<lparr>attributes := (attributes m)(k := v)\<rparr>"

text \<open>
  Bookshelf's \<open>hasChanged(attr)\<close>: \<open>set\<close> records a key as changed exactly when its new
  value is not (deeply) equal to the previous attribute's.
\<close>

definition hasChanged :: "model \<Rightarrow> string \<Rightarrow> bool" where
  "hasChanged m k = (get m k \<noteq> previous m k)"

text \<open>
  The options of a save, each flag as its truth value: \<open>method'\<close> is
  \<open>options.method\<close>, \<open>context'\<close> is \<open>options.context\<close> (\<open>None\<close> when absent) with its
  \<open>internal\<close> flag.
\<close>

record ctx =
  internal :: bool

record options =
  method' :: string
  importing :: bool
  migrating :: bool
  context' :: "ctx option"
  force_rerender :: bool
  send_email_when_published :: bool

section \<open>Permissions\<close>

text \<open>
  The roles loaded for the acting user and for the API key, by name; \<open>None\<close> when the
  request carries no user (no API key).
\<close>

record loadedPermissions =
  user :: "string list option"
  apiKey :: "string list option"

definition some_role :: "string list option \<Rightarrow> string \<Rightarrow> bool" where
  "some_role roles n = (case roles of None \<Rightarrow> False | Some rs \<Rightarrow> n \<in> set rs)"

definition isChanging :: "model \<Rightarrow> object \<Rightarrow> string \<Rightarrow> bool" where
  "isChanging postModel unsafeAttrs attr =
     (truthy (unsafeAttrs attr) \<and> \<not> strict_eq (unsafeAttrs attr) (get postModel attr))"

definition isPublished_attrs :: "object \<Rightarrow> bool" where
  "isPublished_attrs unsafeAttrs =
     (truthy (unsafeAttrs ''status'') \<and> \<not> strict_eq (unsafeAttrs ''status'') (Str ''draft''))"

definition isDraft :: "model \<Rightarrow> bool" where
  "isDraft postModel = strict_eq (get postModel ''status'') (Str ''draft'')"

text \<open>
  \<open>permissible\<close> resolves with the attributes to exclude or rejects with a
  NoPermissionError. \<open>hasUserPermission\<close> and \<open>hasApiKeyPermission\<close> arrive as the
  truth values of the caller's arguments; the \<open>context\<close> argument is not read by the
  function and is left out.
\<close>

definition permissible ::
  "model \<Rightarrow> string \<Rightarrow> object \<Rightarrow> loadedPermissions \<Rightarrow> bool \<Rightarrow> bool \<Rightarrow> error + string list" where
  "permissible postModel action unsafeAttrs loaded hasUserPermission hasApiKeyPermission =
     (let isContributor = some_role (user loaded) ''Contributor'';
          isOwner = some_role (user loaded) ''Owner'';
          isAdmin = some_role (user loaded) ''Administrator'';
          isEditor = some_role (user loaded) ''Editor'';
          isIntegration = some_role (apiKey loaded) ''Admin Integration'';
          isEdit = (action = ''edit'');
          isAdd = (action = ''add'');
          isDestroy = (action = ''destroy'');
          hasUserPermission' =
            (if isContributor \<and> isEdit then
               (\<not> isChanging postModel unsafeAttrs ''status'' \<and> isDraft postModel)
             else if isContributor \<and> isAdd then \<not> isPublished_attrs unsafeAttrs
             else if isContributor \<and> isDestroy then isDraft postModel
             else if \<not> (isOwner \<or> isAdmin \<or> isEditor \<or> isIntegration) then
               \<not> isChanging postModel unsafeAttrs ''visibility''
             else hasUserPermission);
          excludedAttrs = (if isContributor then [''tags''] else [])
      in if hasUserPermission' \<and> hasApiKeyPermission then Inr excludedAttrs
         else Inl (NoPermissionError ''errors.models.post.notEnoughPermission''))"

section \<open>The environment of the post model\<close>

text \<open>
  What the post model calls but does not define: the process environment and
  configuration, the clock, third-party libraries (moment, lodash's locale functions,
  the URL utilities, the mobiledoc renderer, html-to-text), the inherited hooks of the
  base model, and the storage queries. Each is a parameter; the collaborators are assumed
  to answer (a storage failure is not modelled).

  \<^item> \<open>subdomain\<close>: \<open>process.env.subdomain\<close>, \<open>None\<close> when the variable is not set;
  \<^item> \<open>cannotScheduleAPostBeforeInMinutes\<close>: the configured lead time;
  \<^item> \<open>now_schedule\<close>, \<open>now_published\<close>, \<open>now_revision_prev\<close>, \<open>now_revision\<close>: what the
    clock reads at \<open>moment()\<close> in the scheduling check, at \<open>new Date()\<close> when
    published_at is defaulted, and at the \<open>Date.now()\<close> calls of the revision entries
    (the prior body's and the new body's), in epoch milliseconds;
  \<^item> \<open>parseMoment\<close>: moment's parser for values other than dates and numbers, \<open>None\<close>
    for an invalid instant; \<open>dateToString\<close>: how the host prints a date;
    \<open>toLocaleLowerCase\<close>: the host's lower-casing of a string;
  \<^item> \<open>untitled\<close>: the translated title of an untitled post; \<open>blankDocument\<close>: the JSON
    text of the blank mobiledoc;
  \<^item> \<open>hasDateChanged\<close> (attribute and its \<open>beforeWrite\<close> option), \<open>contextUser\<close>,
    \<open>generateSlug\<close> (the base string and the importing flag), \<open>filterOptions\<close>,
    \<open>base_onSaving\<close>, \<open>base_onUpdated\<close>, \<open>base_add\<close>, \<open>findOne\<close>: the base model's
    helpers and hooks;
  \<^item> \<open>urlUtils\<close>: the URL utilities, by function name, applied to a value and the
    transform options; \<open>populateImageSizes\<close>: the mobiledoc library's image sizing;
  \<^item> \<open>render\<close>: \<open>JSON.parse\<close> followed by the mobiledoc renderer, \<open>None\<close> when either
    throws; \<open>htmlToText\<close>: html-to-text's \<open>fromString\<close>;
  \<^item> \<open>emailExists\<close>: whether fetching the related email finds one;
  \<^item> \<open>findAllRevisions\<close>: the stored revision rows of a post id, in the order the
    storage returns them.
\<close>

record env =
  subdomain :: "string option"
  cannotScheduleAPostBeforeInMinutes :: int
  now_schedule :: int
  now_published :: int
  now_revision_prev :: int
  now_revision :: int
  parseMoment :: "jsval \<Rightarrow> int option"
  dateToString :: "int option \<Rightarrow> string"
  toLocaleLowerCase :: "string \<Rightarrow> string"
  untitled :: string
  blankDocument :: string
  hasDateChanged :: "model \<Rightarrow> string \<Rightarrow> bool \<Rightarrow> bool"
  contextUser :: "options \<Rightarrow> jsval"
  generateSlug :: "jsval \<Rightarrow> bool \<Rightarrow> string"
  filterOptions :: "options \<Rightarrow> string \<Rightarrow> options"
  base_onSaving :: "model \<Rightarrow> model"
  base_onUpdated :: "model \<Rightarrow> model"
  base_add :: "object \<Rightarrow> options \<Rightarrow> error + model"
  findOne :: "jsval \<Rightarrow> model option"
  urlUtils :: "string \<Rightarrow> jsval \<Rightarrow> (string \<times> jsval) list \<Rightarrow> jsval"
  populateImageSizes :: "jsval \<Rightarrow> jsval"
  render :: "jsval \<Rightarrow> jsval option"
  htmlToText :: "jsval \<Rightarrow> jsval"
  emailExists :: bool
  findAllRevisions :: "jsval \<Rightarrow> jsval list"

section \<open>Events emitted after an update\<close>

text \<open>
  \<open>emitChange\<close> hands the event \<open>resourceType + '.' + event\<close> to the base model's
  emitter; \<open>PostEvent rt ev\<close> stands for that name, keeping the resource type and the
  event apart. \<open>TagEvent\<close> and \<open>AuthorEvent\<close> are the events emitted on the attached tag
  and author models.
\<close>

datatype emitted =
    PostEvent jsval string
  | TagEvent jsval string
  | AuthorEvent jsval string

definition emitChange :: "model \<Rightarrow> string \<Rightarrow> bool \<Rightarrow> emitted" where
  "emitChange this event usePreviousAttribute =
     PostEvent (if usePreviousAttribute then previous this ''type'' else get this ''type'') event"

definition statusChanging :: "model \<Rightarrow> bool" where
  "statusChanging m = (\<not> strict_eq (get m ''status'') (previous m ''status''))"

definition isPublished :: "model \<Rightarrow> bool" where
  "isPublished m = strict_eq (get m ''status'') (Str ''published'')"

definition isScheduled :: "model \<Rightarrow> bool" where
  "isScheduled m = strict_eq (get m ''status'') (Str ''scheduled'')"

definition wasPublished :: "model \<Rightarrow> bool" where
  "wasPublished m = strict_eq (previous m ''status'') (Str ''published'')"

definition wasScheduled :: "model \<Rightarrow> bool" where
  "wasScheduled m = strict_eq (previous m ''status'') (Str ''scheduled'')"

definition resourceTypeChanging :: "model \<Rightarrow> bool" where
  "resourceTypeChanging m = (\<not> strict_eq (get m ''type'') (previous m ''type''))"

definition needsReschedule :: "env \<Rightarrow> model \<Rightarrow> bool" where
  "needsReschedule E m = (hasDateChanged E m ''published_at'' False \<and> isScheduled m)"

definition handleStatusForAttachedModels :: "model \<Rightarrow> emitted list" where
  "handleStatusForAttachedModels m =
     map (\<lambda>tag. TagEvent tag ''attached'') (related_tags m)
     @ map (\<lambda>author. AuthorEvent author ''attached'') (related_authors m)"

text \<open>The events \<open>onUpdated\<close> emits, in order; the inherited hook runs first.\<close>

definition onUpdated :: "env \<Rightarrow> model \<Rightarrow> emitted list" where
  "onUpdated E model0 =
     (let model = base_onUpdated E model0 in
        (if resourceTypeChanging model then
           (if wasPublished model then [emitChange model ''unpublished'' True] else [])
           @ (if wasScheduled model then [emitChange model ''unscheduled'' True] else [])
           @ [emitChange model ''deleted'' True, emitChange model ''added'' False]
           @ (if isPublished model then [emitChange model ''published'' False] else [])
           @ (if isScheduled model then [emitChange model ''scheduled'' False] else [])
         else
           (if statusChanging model then
              (if wasPublished model then [emitChange model ''unpublished'' False] else [])
              @ (if isPublished model then [emitChange model ''published'' False] else [])
              @ (if isScheduled model then [emitChange model ''scheduled'' False] else [])
              @ (if wasScheduled model \<and> \<not> isScheduled model \<and> \<not> isPublished model
                 then [emitChange model ''unscheduled'' False] else [])
            else
              (if isPublished model then [emitChange model ''published.edited'' False] else [])
              @ (if needsReschedule E model then [emitChange model ''rescheduled'' False] else []))
           @ [emitChange model ''edited'' False])
        @ (if statusChanging model \<and> (isPublished model \<or> wasPublished model)
           then handleStatusForAttachedModels model else []))"

text \<open>The events of the post itself, without those of its tags and authors.\<close>

fun isPostEvent :: "emitted \<Rightarrow> bool" where
  "isPostEvent (PostEvent rt ev) = True"
| "isPostEvent e = False"

definition postEvents :: "emitted list \<Rightarrow> emitted list" where
  "postEvents evs = filter isPostEvent evs"

fun eventName :: "emitted \<Rightarrow> string" where
  "eventName (PostEvent rt ev) = ev"
| "eventName (TagEvent t ev) = ev"
| "eventName (AuthorEvent a ev) = ev"

section \<open>Saving a post\<close>

subsection \<open>What \<open>onSaving\<close> reads when it is entered\<close>

definition newTitle :: "model \<Rightarrow> jsval" where
  "newTitle this = get this ''title''"

definition newStatus :: "model \<Rightarrow> jsval" where
  "newStatus this = get this ''status''"

definition olderStatus :: "model \<Rightarrow> jsval" where
  "olderStatus this = previous this ''status''"

definition prevTitle :: "model \<Rightarrow> jsval" where
  "prevTitle this = previous this ''title''"

definition prevSlug :: "model \<Rightarrow> jsval" where
  "prevSlug this = previous this ''slug''"

definition publishedAt :: "model \<Rightarrow> jsval" where
  "publishedAt this = get this ''published_at''"

definition publishedAtHasChanged :: "env \<Rightarrow> model \<Rightarrow> bool" where
  "publishedAtHasChanged E this = hasDateChanged E this ''published_at'' True"

definition generatedFields :: "string list" where
  "generatedFields = [''html'', ''plaintext'']"

subsection \<open>Status and schedule checks\<close>

text \<open>
  \<open>moment(v)\<close> as epoch milliseconds, \<open>None\<close> when \<open>isValid()\<close> is false: a date is as
  valid as it is, a number counts milliseconds, anything else goes to the parser.
\<close>

fun moment :: "env \<Rightarrow> jsval \<Rightarrow> int option" where
  "moment E (Date d) = d"
| "moment E (Num n) = Some n"
| "moment E v = parseMoment E v"

text \<open>\<open>moment(v).isBefore(moment().add(lead, 'minutes'))\<close>.\<close>

definition isBeforeLeadTime :: "env \<Rightarrow> jsval \<Rightarrow> bool" where
  "isBeforeLeadTime E v =
     (case moment E v of
        None \<Rightarrow> False
      | Some t \<Rightarrow> t < now_schedule E + cannotScheduleAPostBeforeInMinutes E * 60000)"

text \<open>\<open>!options.context || !options.context.internal\<close>.\<close>

definition notInternal :: "options \<Rightarrow> bool" where
  "notInternal opts = (case context' opts of None \<Rightarrow> True | Some c \<Rightarrow> \<not> internal c)"

text \<open>CASE: disallow published -> scheduled.\<close>

definition disallowPublishedToScheduled :: "model \<Rightarrow> error option" where
  "disallowPublishedToScheduled this =
     (if \<not> strict_eq (newStatus this) (olderStatus this)
         \<and> strict_eq (newStatus this) (Str ''scheduled'')
         \<and> strict_eq (olderStatus this) (Str ''published'')
      then Some (ValidationError ''errors.models.post.isAlreadyPublished'')
      else None)"

definition setCommentId :: "options \<Rightarrow> model \<Rightarrow> model" where
  "setCommentId opts this =
     (if method' opts = ''insert'' \<and> \<not> truthy (get this ''comment_id'')
      then set_attr this ''comment_id'' (model_id this)
      else this)"

text \<open>CASE: both page and post can get scheduled.\<close>

definition checkScheduled :: "env \<Rightarrow> options \<Rightarrow> model \<Rightarrow> error option" where
  "checkScheduled E opts this =
     (if strict_eq (newStatus this) (Str ''scheduled'') then
        (if \<not> truthy (publishedAt this) then
           Some (ValidationError ''errors.models.post.valueCannotBeBlank'')
         else if moment E (publishedAt this) = None then
           Some (ValidationError ''errors.models.post.valueCannotBeBlank'')
         else if publishedAtHasChanged E this
                 \<and> isBeforeLeadTime E (publishedAt this)
                 \<and> \<not> importing opts
                 \<and> notInternal opts then
           Some (ValidationError ''errors.models.post.expectedPublishedAtInFuture'')
         else None)
      else None)"

subsection \<open>Tags and posts_meta\<close>

text \<open>
  \<open>saved.name && item.name && saved.name.toLocaleLowerCase() === item.name.toLocaleLowerCase()\<close>:
  a truthy name that is not a string has no \<open>toLocaleLowerCase\<close>, and the call throws.
\<close>

definition sameName :: "env \<Rightarrow> jsval \<Rightarrow> jsval \<Rightarrow> error + bool" where
  "sameName E saved item =
     (case member_name saved of
        Inl e \<Rightarrow> Inl e
      | Inr a \<Rightarrow>
          if \<not> truthy a then Inr False
          else (case member_name item of
                  Inl e \<Rightarrow> Inl e
                | Inr b \<Rightarrow>
                    if \<not> truthy b then Inr False
                    else (case a of
                            Str x \<Rightarrow>
                              (case b of
                                 Str y \<Rightarrow> Inr (toLocaleLowerCase E x = toLocaleLowerCase E y)
                               | _ \<Rightarrow> Inl TypeError)
                          | _ \<Rightarrow> Inl TypeError)))"

text \<open>The inner loop over \<open>tagsToSave\<close>: does an earlier tag carry the item's name?\<close>

fun isDuplicate :: "env \<Rightarrow> jsval list \<Rightarrow> jsval \<Rightarrow> error + bool" where
  "isDuplicate E [] item = Inr False"
| "isDuplicate E (t # ts) item =
     (case sameName E t item of
        Inl e \<Rightarrow> Inl e
      | Inr same \<Rightarrow> if same then Inr True else isDuplicate E ts item)"

fun dedupe :: "env \<Rightarrow> jsval list \<Rightarrow> jsval list \<Rightarrow> error + jsval list" where
  "dedupe E tagsToSave [] = Inr tagsToSave"
| "dedupe E tagsToSave (item # items) =
     (case isDuplicate E tagsToSave item of
        Inl e \<Rightarrow> Inl e
      | Inr dup \<Rightarrow> dedupe E (if dup then tagsToSave else tagsToSave @ [item]) items)"

text \<open>CASE: detect lowercase/uppercase tag slugs.\<close>

definition dedupeTags :: "env \<Rightarrow> model \<Rightarrow> error + model" where
  "dedupeTags E this =
     (if get this ''tags'' \<noteq> Undefined \<and> get this ''tags'' \<noteq> Null then
        (case dedupe E [] (elements (get this ''tags'')) of
           Inl e \<Rightarrow> Inl e
         | Inr tagsToSave \<Rightarrow> Inr (set_attr this ''tags'' (Arr tagsToSave)))
      else Inr this)"

fun put :: "(string \<times> jsval) list \<Rightarrow> string \<Rightarrow> jsval \<Rightarrow> (string \<times> jsval) list" where
  "put [] k v = [(k, v)]"
| "put ((k', v') # kvs) k v = (if k' = k then (k, v) # kvs else (k', v') # put kvs k v)"

text \<open>
  \<open>postsMetaData.id = relatedModelId\<close>: an object gets the entry; on a primitive the
  assignment has no effect.
\<close>

fun assign_id :: "jsval \<Rightarrow> jsval \<Rightarrow> jsval" where
  "assign_id (Obj kvs) v = Obj (put kvs ''id'' v)"
| "assign_id d v = d"

definition attachPostsMeta :: "model \<Rightarrow> model" where
  "attachPostsMeta this =
     (if get this ''posts_meta'' \<noteq> Undefined \<and> get this ''posts_meta'' \<noteq> Null then
        (if truthy (related_posts_meta_id this) \<and> \<not> isEmpty (get this ''posts_meta'') then
           set_attr this ''posts_meta''
             (assign_id (get this ''posts_meta'') (related_posts_meta_id this))
         else if isEmpty (get this ''posts_meta'')
                 \<or> \<not> list_ex truthy (elements (get this ''posts_meta'')) then
           set_attr this ''posts_meta'' Null
         else this)
      else this)"

text \<open>
  \<open>onSaving\<close> up to the call of the inherited hook: a rejection carries the error and
  the model as it stands at that moment.
\<close>

definition beforeBaseHook :: "env \<Rightarrow> options \<Rightarrow> model \<Rightarrow> (error \<times> model) + model" where
  "beforeBaseHook E opts this =
     (case disallowPublishedToScheduled this of
        Some e \<Rightarrow> Inl (e, this)
      | None \<Rightarrow>
          (case checkScheduled E opts this of
             Some e \<Rightarrow> Inl (e, setCommentId opts this)
           | None \<Rightarrow>
               (case dedupeTags E (setCommentId opts this) of
                  Inl e \<Rightarrow> Inl (e, setCommentId opts this)
                | Inr m \<Rightarrow> Inr (attachPostsMeta m))))"

subsection \<open>Generated fields, URLs, rendering\<close>

text \<open>Do not allow generated fields to be overridden via the API.\<close>

definition revertField :: "model \<Rightarrow> string \<Rightarrow> model" where
  "revertField this field =
     (if hasChanged this field then set_attr this field (previous this field) else this)"

definition revertGeneratedFields :: "options \<Rightarrow> model \<Rightarrow> model" where
  "revertGeneratedFields opts this =
     (if \<not> migrating opts then foldl revertField this generatedFields else this)"

definition defaultMobiledoc :: "env \<Rightarrow> model \<Rightarrow> model" where
  "defaultMobiledoc E this =
     (if \<not> truthy (get this ''mobiledoc'')
      then set_attr this ''mobiledoc'' (Str (blankDocument E))
      else this)"

text \<open>
  Ensure all URLs are stored as relative: attribute, function of the URL utilities, and
  the options passed to it.
\<close>

definition urlTransformMap :: "(string \<times> string \<times> (string \<times> jsval) list) list" where
  "urlTransformMap =
     [(''mobiledoc'', ''mobiledocAbsoluteToRelative'', []),
      (''custom_excerpt'', ''htmlAbsoluteToRelative'', []),
      (''codeinjection_head'', ''htmlAbsoluteToRelative'', []),
      (''codeinjection_foot'', ''htmlAbsoluteToRelative'', []),
      (''feature_image'', ''absoluteToRelative'', []),
      (''og_image'', ''absoluteToRelative'', []),
      (''twitter_image'', ''absoluteToRelative'', []),
      (''canonical_url'', ''absoluteToRelative'', [(''ignoreProtocol'', Bool False)])]"

definition transformUrl ::
  "env \<Rightarrow> model \<Rightarrow> string \<times> string \<times> (string \<times> jsval) list \<Rightarrow> model" where
  "transformUrl E this t =
     (case t of (attrToTransform, transformMethod, transformOptions) \<Rightarrow>
        if hasChanged this attrToTransform \<and> truthy (get this attrToTransform)
        then set_attr this attrToTransform
               (urlUtils E transformMethod (get this attrToTransform) transformOptions)
        else this)"

definition transformUrls :: "env \<Rightarrow> model \<Rightarrow> model" where
  "transformUrls E this = foldl (transformUrl E) this urlTransformMap"

definition forceRerender :: "env \<Rightarrow> options \<Rightarrow> model \<Rightarrow> model" where
  "forceRerender E opts this =
     (if force_rerender opts
      then set_attr this ''mobiledoc'' (populateImageSizes E (get this ''mobiledoc''))
      else this)"

text \<open>
  CASE: mobiledoc has changed, generate html; \<open>?force_rerender=true\<close>; html is null but
  mobiledoc exists (migrations and imports). A renderer that throws rejects the save.
\<close>

definition renderHtml :: "env \<Rightarrow> options \<Rightarrow> model \<Rightarrow> (error \<times> model) + model" where
  "renderHtml E opts this =
     (if hasChanged this ''mobiledoc''
         \<or> force_rerender opts
         \<or> (\<not> truthy (get this ''html'') \<and> (migrating opts \<or> importing opts))
      then (case render E (get this ''mobiledoc'') of
              None \<Rightarrow> Inl (ValidationError ''Invalid mobiledoc structure.'', this)
            | Some html \<Rightarrow> Inr (set_attr this ''html'' html))
      else Inr this)"

definition newPlaintext :: "env \<Rightarrow> model \<Rightarrow> jsval" where
  "newPlaintext E this =
     (if get this ''html'' = Null then Null else htmlToText E (get this ''html''))"

definition updatePlaintext :: "env \<Rightarrow> model \<Rightarrow> model" where
  "updatePlaintext E this =
     (if hasChanged this ''html'' \<or> \<not> truthy (get this ''plaintext'') then
        (if truthy (newPlaintext E this)
            \<or> \<not> strict_eq (newPlaintext E this) (get this ''plaintext'')
         then set_attr this ''plaintext'' (newPlaintext E this)
         else this)
      else this)"

definition sanitizeTitle :: "env \<Rightarrow> options \<Rightarrow> model \<Rightarrow> model" where
  "sanitizeTitle E opts this =
     (if \<not> importing opts
      then set_attr this ''title''
             (Str (trim (lodash_toString (dateToString E)
                           (js_or (get this ''title'') (Str (untitled E))))))
      else this)"

subsection \<open>Business logic for published_at and published_by\<close>

text \<open>If the current status is 'published' and published_at is not set, set it to now.\<close>

definition setPublishedAt :: "env \<Rightarrow> model \<Rightarrow> model \<Rightarrow> model" where
  "setPublishedAt E entry this =
     (if strict_eq (newStatus entry) (Str ''published'') \<and> \<not> truthy (publishedAt entry)
      then set_attr this ''published_at'' (Date (Some (now_published E)))
      else this)"

text \<open>
  If the status has just changed to 'published', published_by is the context user,
  unless it is set and we are importing. In any other case (except import)
  published_by should not be changed.
\<close>

definition setPublishedBy :: "env \<Rightarrow> options \<Rightarrow> model \<Rightarrow> model \<Rightarrow> model" where
  "setPublishedBy E opts entry this =
     (if strict_eq (newStatus entry) (Str ''published'') \<and> hasChanged this ''status'' then
        (if \<not> (truthy (get this ''published_by'') \<and> importing opts)
         then set_attr this ''published_by''
                (Str (js_String (dateToString E) (contextUser E opts)))
         else this)
      else
        (if hasChanged this ''published_by'' \<and> \<not> importing opts
         then set_attr this ''published_by''
                (if truthy (previous this ''published_by'')
                 then Str (js_String (dateToString E) (previous this ''published_by''))
                 else Null)
         else this))"

definition setSendEmailWhenPublished :: "options \<Rightarrow> model \<Rightarrow> model \<Rightarrow> model" where
  "setSendEmailWhenPublished opts entry this =
     (if send_email_when_published opts \<and> hasChanged this ''status''
         \<and> (strict_eq (newStatus entry) (Str ''published'')
              \<or> strict_eq (newStatus entry) (Str ''scheduled''))
      then set_attr this ''send_email_when_published'' (Bool True)
      else this)"

subsection \<open>The queued operations\<close>

definition ensureSendEmailWhenPublishedIsUnchanged :: "env \<Rightarrow> model \<Rightarrow> model" where
  "ensureSendEmailWhenPublishedIsUnchanged E self =
     (if emailExists E
      then set_attr self ''send_email_when_published'' (Bool True)
      else set_attr self ''send_email_when_published'' (Bool False))"

text \<open>
  If a title is set, not the same as the old title, a draft post, and has never been
  published.
\<close>

definition titleDrivesSlug :: "model \<Rightarrow> bool" where
  "titleDrivesSlug entry =
     (\<not> strict_eq (prevTitle entry) Undefined
      \<and> \<not> strict_eq (newTitle entry) (prevTitle entry)
      \<and> strict_eq (newStatus entry) (Str ''draft'')
      \<and> \<not> truthy (publishedAt entry))"

text \<open>
  If the old slug is the same as the slug that was generated from the old title then set
  a new slug. If it is not the same, it was set by the user.
\<close>

definition updateSlugFromTitle :: "env \<Rightarrow> options \<Rightarrow> model \<Rightarrow> model \<Rightarrow> model" where
  "updateSlugFromTitle E opts entry self =
     (if strict_eq (Str (generateSlug E (prevTitle entry) (importing opts))) (prevSlug entry)
      then set_attr self ''slug'' (Str (generateSlug E (get self ''title'') (importing opts)))
      else self)"

definition updateSlugFromField :: "env \<Rightarrow> options \<Rightarrow> model \<Rightarrow> model" where
  "updateSlugFromField E opts self =
     (if hasChanged self ''slug'' \<or> \<not> truthy (get self ''slug'')
      then set_attr self ''slug''
             (Str (generateSlug E (js_or (get self ''slug'') (get self ''title''))
                     (importing opts)))
      else self)"

definition updateSlug :: "env \<Rightarrow> options \<Rightarrow> model \<Rightarrow> model \<Rightarrow> model" where
  "updateSlug E opts entry self =
     (if titleDrivesSlug entry then updateSlugFromTitle E opts entry self
      else updateSlugFromField E opts self)"

definition MOBILEDOC_REVISIONS_COUNT :: nat where
  "MOBILEDOC_REVISIONS_COUNT = 10"

definition revisionEntry :: "model \<Rightarrow> jsval \<Rightarrow> int \<Rightarrow> jsval" where
  "revisionEntry model mobiledoc ts =
     Obj [(''post_id'', model_id model), (''mobiledoc'', mobiledoc), (''created_at_ts'', Num ts)]"

text \<open>\<open>row[k]\<close> of a stored row.\<close>

fun field :: "jsval \<Rightarrow> string \<Rightarrow> jsval" where
  "field (Obj kvs) k = lookup kvs k"
| "field v k = Undefined"

text \<open>The revisions are fetched with \<open>columns: ['id']\<close>: their JSON holds the id only.\<close>

definition toJSON_id :: "jsval \<Rightarrow> jsval" where
  "toJSON_id row = Obj [(''id'', field row ''id'')]"

text \<open>CASE: Handle mobiledoc backups/revisions.\<close>

definition updateRevisions :: "env \<Rightarrow> options \<Rightarrow> model \<Rightarrow> model" where
  "updateRevisions E opts model =
     (if findAllRevisions E (model_id model) = [] \<and> method' opts \<noteq> ''insert'' then
        set_attr model ''mobiledoc_revisions''
          (Arr [revisionEntry model (previous model ''mobiledoc'') (now_revision_prev E - 1),
                revisionEntry model (get model ''mobiledoc'') (now_revision E)])
      else
        set_attr model ''mobiledoc_revisions''
          (Arr (take (MOBILEDOC_REVISIONS_COUNT - 1)
                  (map toJSON_id (findAllRevisions E (model_id model)))
                @ [revisionEntry model (get model ''mobiledoc'') (now_revision E)])))"

text \<open>
  \<open>sequence(ops)\<close>: whether an operation is queued is decided on the model as the
  synchronous part left it (\<open>queued\<close>); the operations then run one after the other.
\<close>

definition sequence_ops :: "env \<Rightarrow> options \<Rightarrow> model \<Rightarrow> model \<Rightarrow> model" where
  "sequence_ops E opts entry queued =
     (let s1 = (if strict_eq (newStatus entry) (Str ''draft'') \<and> hasChanged queued ''status''
                then ensureSendEmailWhenPublishedIsUnchanged E queued else queued);
          s2 = updateSlug E opts entry s1
      in if hasChanged queued ''mobiledoc'' \<and> \<not> importing opts \<and> \<not> migrating opts
         then updateRevisions E opts s2 else s2)"

subsection \<open>\<open>onSaving\<close>\<close>

text \<open>
  From the return of the inherited hook to the queueing of the operations.
  (\<open>handleAttachedModels\<close>, called just before the hook, only registers listeners on
  the tag and author relations; it writes no attribute.)
\<close>

definition afterBaseHook :: "env \<Rightarrow> options \<Rightarrow> model \<Rightarrow> model \<Rightarrow> (error \<times> model) + model" where
  "afterBaseHook E opts entry this =
     (case renderHtml E opts
             (forceRerender E opts
               (transformUrls E (defaultMobiledoc E (revertGeneratedFields opts this)))) of
        Inl e \<Rightarrow> Inl e
      | Inr m \<Rightarrow>
          Inr (setSendEmailWhenPublished opts entry
                (setPublishedBy E opts entry
                  (setPublishedAt E entry
                    (sanitizeTitle E opts (updatePlaintext E m))))))"

text \<open>
  \<open>onSaving\<close> resolves with the model to be written, or rejects with an error and the
  model as it stands at the rejection.
\<close>

definition onSaving :: "env \<Rightarrow> model \<Rightarrow> options \<Rightarrow> (error \<times> model) + model" where
  "onSaving E this opts =
     (case beforeBaseHook E opts this of
        Inl e \<Rightarrow> Inl e
      | Inr m \<Rightarrow>
          (case afterBaseHook E opts this (base_onSaving E m) of
             Inl e \<Rightarrow> Inl e
           | Inr queued \<Rightarrow> Inr (sequence_ops E opts this queued)))"

section \<open>Adding a post\<close>

text \<open>
  The sidebar texts of \<open>add\<close>, one per subdomain, as the source lists them.
\<close>

definition sidebar_montana :: string where
  "sidebar_montana =
     ''<span>Montana Reverse Phone Lookup</span><p>Reverse phone lookup, or reverse phone search, is used to uncover information that can identify an unknown caller. Reverse phone search tools search a variety of public records and phone number registration databases to ascertain subscribers assigned numbers submitted for search. It is useful for answering the question: &quot;who called me&quot;.<p>''"

definition sidebar_florida :: string where
  "sidebar_florida =
     ''<span>Florida Reverse Phone Lookup</span><p>Reverse phone lookup (also reverse phone search) involves finding the personal details connected to a particular phone number. Some of these details include the name and address of the caller. Reverse phone lookup is enabled by the documentation provided when registering a phone number. It is useful for identifying callers and staying ahead of phone scams and stalkers.<p>''"

definition sidebar_alaska :: string where
  "sidebar_alaska =
     ''<span>Alaska Reverse Phone Lookup</span><p>Performing reverse phone lookup on Alaska phone numbers allows one to identify unknown callers. There are many reasons why someone may decide to investigate the origin of a phone call. While it can be out of curiosity, it may also be to find out if an unknown number belongs to a stalker, a scammer, or someone with a criminal record. Understanding how to search the extensive databases maintained by reverse phone search services can help you decide whether you should ignore an unknown caller or call them back.<p>''"

definition sidebar_nebraska :: string where
  "sidebar_nebraska =
     ''<span>Nebraska Reverse Phone Lookup</span><p>Reverse phone lookup or reverse phone search is a way of finding the identities of callers not in your contact lists through their phone numbers. This service is useful for discovering the owners of unknown numbers calling you whether the numbers bear Nebraska area codes or not. The information provided can help you decide whether an unsolicited call is likely from a scammer, an old acquaintance, a known organization, a robocaller, or a spam caller.\<newline><p>''"

definition sidebar_nevada :: string where
  "sidebar_nevada =
     ''<span>Nevada Reverse Phone Lookup</span><p>Also known as reverse phone search, phone number lookup refers to the different ways a called party can find out the real person behind an unknown call just by searching with the phone number. Vital personal information required as a basic registration requirement for obtaining a phone number provides a rich database for reverse phone search. Using phone lookup services, Nevada residents can identify unknown callers and avoid scammers trying to steal money and information.\<newline><p>''"

definition sidebar_newjersey :: string where
  "sidebar_newjersey =
     ''<span>New Jersey Reverse Phone Lookup</span><p>Reverse phone search or phone number lookup is the process for obtaining information about the registered user of a telephone service number. Before any individual is granted a phone number, they are required to provide personal information details for verification and other statutory purposes. By performing a reverse phone search using a phone number, it is possible to identify who the number is registered to.\<newline><p>''"

definition sidebar_newyork :: string where
  "sidebar_newyork =
     ''<span>New York Reverse Phone Lookup</span><p>A reverse phone number search or phone number lookup involves searching and identifying the subscriber registered to a phone number. The most common reason to conduct a phone number search is to discover details about the person using a particular phone number, most often on suspicion of fraud or other illicit activities. You can also look up an unknown phone number or a spam call in order to discover the identity of a strange caller.<p>''"

definition sidebar_connecticut :: string where
  "sidebar_connecticut =
     ''<span>Connecticut Reverse Phone Lookup</span><p>Reverse phone lookup is the process of discovering more details about who a phone number is registered to using just the phone number. Using a standard phone directory, you find a phone number by searching by name. In reverse phone search, however, it is the phone number that will lead the enquirer to the name and other details about who the number is registered to.<p>''"

definition sidebar_indiana :: string where
  "sidebar_indiana =
     ''<span>Indiana Reverse Phone Lookup</span><p>Phone lookup or reverse phone search is a way of discovering the owner of a phone number by searching phone subscriber directories. With the increasing worry of phone scams, many Hoosiers are uneasy when contacted by unknown numbers. Identifying an unknown caller is just one of the many reasons why someone may consider investigating the origin and location of a call. Phone lookup services maintain extensive databases of mobile phone, landline, and some VoIP phone numbers. Anyone can easily use these online tools to differentiate genuine callers from spam.\<newline><p>''"

definition sidebar_kansas :: string where
  "sidebar_kansas =
     ''<span>Kansas Reverse Phone Lookup</span><p>The processes of searching and retrieving user information for phone numbers is referred to as reverse phone lookup. It is a procedure used to discover who an unknown number is registered to. During the process of procuring a phone line, carriers require each subscriber to provide identification and contact information. Reverse phone searches look up these details and return them to persons trying to identify persons registered to submitted phone numbers. A reverse phone lookup is also known as reverse phone search or phone number lookup.<p>''"

definition sidebar_louisiana :: string where
  "sidebar_louisiana =
     ''<span>Louisiana Reverse Phone Lookup</span><p>A reverse phone search refers to the process involved in looking up information about a phone number to identify whom the number is registered to. Before receiving a phone number, subscribers are required to complete paperwork and provide identification, and this information is registered in a directory. A reverse phone search or phone number lookup searches the directory and retrieves available information about the registrant of a phone number.<p>''"

definition sidebar_maryland :: string where
  "sidebar_maryland =
     ''<span>Maryland Reverse Phone Lookup</span><p>Reverse phone lookup is a process by which an individual can discover who the phone number that called them is registered to, amongst other information. This process is also referred to as phone number search. When acquiring a phone number, each subscriber is required to complete paperwork that will contain personal information details. A reverse phone lookup accesses carrier subscriber registries to retrieve available information about the phone numbers being searched.<p>''"

definition sidebar_michigan :: string where
  "sidebar_michigan =
     ''<span>Michigan Reverse Phone Lookup</span><p>A reverse phone lookup is a process by which available information about the owner of a phone number is obtained. Anyone who applies for a phone number is required to provide their identity and contact data before receiving one. This information is stored in a user account directory maintained by the service provider. The question &quot;who called me?&quot; can be answered by retrieving the user information for the phone number in question with a reverse phone search.<p>''"

definition sidebar_minnesota :: string where
  "sidebar_minnesota =
     ''<span>Minnesota Reverse Phone Lookup</span><p>Reverse phone lookup is the process of getting the names and other personal information of unknown callers using their phone numbers. There are many reasons why Minnesotans may decide to perform reverse phone searches. While some may want to find out whether anonymous numbers calling them are from scammers or stalkers, others may do so to find more information on vaguely familiar contacts. Regardless of their reasons, searching extensive directories maintained by phone number lookup services can provide information about who those numbers are registered to.<p>''"

definition sidebar_mississippi :: string where
  "sidebar_mississippi =
     ''<span>Mississippi Reverse Phone Lookup</span><p>Reverse phone lookup or reverse phone search involves retrieving user account information for a phone number. When purchasing a phone line, the subscriber is required to provide certain personal information as well as identification. Carriers keep such subscriber information in user account directories that reverse phone searches can query. A reverse phone search or phone number search is for verifying who an unknown number is registered to.<p>''"

definition sidebar_northcarolina :: string where
  "sidebar_northcarolina =
     ''<span>North Carolina Reverse Phone Lookup</span><p>The process by which a person can obtain information about who the phone number that called them is registered to is referred to as reverse phone search or phone number lookup. Anyone who acquires a phone number is required to provide personal information about themselves, which is registered against the number. By performing a reverse phone lookup, it is possible to gain access to the subscriber details registered to a phone number.<p>''"

definition sidebar_northdakota :: string where
  "sidebar_northdakota =
     ''<span>North Dakota Reverse Phone Lookup</span><p>Reverse phone lookup is the process of retrieving available user account information about a phone number. Also commonly referred to as phone number lookup, it provides answers to the question &quot;who is this number registered to&quot;. Part of the steps required for obtaining a new phone number is submitting personal information and providing ID to your carrier of choice. Carriers store such subscriber records in accessible user account directories. A reverse phone lookup queries these directories and returns the available information to the persons conducting the phone number lookup.<p>''"

definition sidebar_ohio :: string where
  "sidebar_ohio =
     ''<span>Ohio Reverse Phone Lookup</span><p>When an individual performs a reverse phone search or a phone number lookup, it is usually to find out information about the person who owns a particular phone number. This is possible because people are required to provide identifying information when requesting phone numbers. As such, discovering details about the last person who called you is simple as long as you can retrieve the phone number they called you with.<p>''"

definition sidebar_oregon :: string where
  "sidebar_oregon =
     ''<span>Oregon Reverse Phone Lookup</span><p>Reverse phone search, or phone number lookup, is an investigative process through which an individual retrieves information about a caller or user of a specific phone number. It comes in handy when there are doubts about the true identity of a caller. By inputting the phone number in a reverse phone lookup search, information about the subscriber assigned the number can be accessed. This is possible because subscriber details are provided to carriers when registering new phone numbers.<p>''"

definition sidebar_pennsylvania :: string where
  "sidebar_pennsylvania =
     ''<span>Pennsylvania Reverse Phone Lookup</span><p>Reverse phone lookup or reverse phone search is a directory that contains phone numbers and details about who the numbers are registered to. The main difference between this and a regular directory is that the phone number is used to get other information about the customer rather than using previously known information to get the phone number. There are many reasons to undertake a reverse phone search. Some of these include identifying unknown callers, stopping spam calls, and avoiding phone scams. In addition to identifying a caller, a reverse phone lookup may also provide other information about the caller including their address and criminal record. While a quick Google search may reveal phonebook information about a phone number, dedicated reverse phone lookup services offer more thorough searches, can find information on a wider range of numbers, and provide deeper information about callers.<p>''"

definition sidebar_rhodeisland :: string where
  "sidebar_rhodeisland =
     ''<span>Rhode Island Reverse Phone Lookup</span><p>Reverse phone search, also known as phone number lookup, is the process of unveiling detailed information about the subscriber registered to a phone number. It is called &#39;reverse&#39; because instead of using a name to get the phone number, the phone number is used to get the person&#39;s name and other details.<p>''"

definition sidebar_southcarolina :: string where
  "sidebar_southcarolina =
     ''<span>South Carolina Reverse Phone Lookup</span><p>It is possible to identify the unknown of an unknown number by conducting a reverse phone lookup. Reverse phone lookup services run submitted numbers through their extensive databases of phone subscribers to identify unknown callers. These services are needed when you want to find out if unknown callers with phone numbers bearing South Carolina area codes are fraudsters, stalkers, old friends, or someone you would rather engage or ignore.\<newline><p>''"

definition sidebar_southdakota :: string where
  "sidebar_southdakota =
     ''<span>South Dakota Reverse Phone Lookup</span><p>Reverse phone lookup is the process of looking up available details about the registered user of a phone number. When registering new phone subscribers, carriers collect their contact information and store these details in accessible directories. A reverse phone lookup service searches these directories and retrieves user information on the subjects of the searches. When a user submits a number to a phone look service, they want an answer to the question &quot;who is this number registered to?&quot;<p>''"

definition sidebar_tennessee :: string where
  "sidebar_tennessee =
     ''<span>Tennessee Reverse Phone Lookup</span><p>Reverse phone lookup or reverse phone search is a way of finding out the true identities of unknown callers through their phone numbers. Various phone lookup services maintain extensive directories that can provide information associated with phone numbers registered in the United States. Available information can include names, addresses, and even criminal records. Understanding how to search through these online-based phone databases can help Tennesseans determine whether or not to answer a call or redial it.<p>''"

definition sidebar_utah :: string where
  "sidebar_utah =
     ''<span>Utah Reverse Phone Lookup</span><p>Reverse phone lookup is a way of retrieving a name and other personal information associated with a phone number. Some online directories maintain extensive databases useful for discovering the identities and addresses of unknown callers and other available information Understanding how to use these services can help determine whether to ignore a call from an unknown, dial back, block it, or report it to your local law enforcement.<p>''"

definition sidebar_virginia :: string where
  "sidebar_virginia =
     ''<span>Virginia Reverse Phone Lookup</span><p>Reverse phone lookup or reverse phone search is the process of using a phone number to identify the caller details associated with it. It is not always advisable for Virginians to answer unknown calls without first running an online reverse check on the numbers calling them. While it could be a friend, family, or acquaintance, an unknown number could also be a scammer, robocall, or malicious person. Phone lookup services maintain comprehensive collections of landline and cellphone numbers and can provide the customer details attached to them. The search results will help you decide whether you want to call back, ignore, or block future calls from that number.<p>''"

definition sidebar_westvirginia :: string where
  "sidebar_westvirginia =
     ''<span>West Virginia Reverse Phone Lookup</span><p>A phone lookup, or reverse phone search, is the act of querying a reverse phone directory to retrieve details about a particular phone number. Individuals or companies that apply for phone numbers are mandated to provide essential information such as full names and addresses. As such, anyone who receives a call from an unknown number can use reverse phone lookup to answer the question &quot;who called me?&quot;<p>''"

definition sidebar_wyoming :: string where
  "sidebar_wyoming =
     ''<span>Wyoming Reverse Phone Lookup</span><p>Reverse phone lookup is the process of searching and retrieving information about the person registered to an unknown number. Persons procuring new phone numbers provide identification and other personal details before receiving their new numbers. This information is stored in user account directories retained by the service provider. Reverse phone lookup or phone number search services query carrier user directories and return information on the numbers submitted for searching. A reverse phone search is useful for answering the question &quot;who called me?&quot; when you receive a call from an unknown number.<p>''"

definition sidebar_california :: string where
  "sidebar_california =
     ''<span>California Reverse Phone Lookup</span><p>Reverse phone search is a phone-based information retrieval technique that involves finding information about an individual or business from their phone numbers. These phone lookup services check their databases for phone number registration histories such as name, address, and other related information. Learning this information can help recipients determine whether to answer or call back a number or not.<p>''"

definition sidebar_newhampshire :: string where
  "sidebar_newhampshire =
     ''<span>New Hampshire Reverse Phone Lookup</span><p>Reverse phone lookup is the process of searching a phone number to discover more details about the owner of the number. Using a reverse phone search to find information on the owner of any telephone number is possible because important data on the owner is collected and stored in the carrier&#39;s database before it is assigned and activated. Such carrier databases are consulted when residents of New Hampshire carry out reverse phone searches to identify unknown callers.\<newline><p>''"

definition sidebar_newmexico :: string where
  "sidebar_newmexico =
     ''<span>New Mexico Reverse Phone Lookup</span><p>Reverse phone search or phone lookup is the process of searching a phone number in online directories to identify the owner. Some online web pages maintain unique search engines that allow users to know more about the owners of unknown phone numbers calling them. Using the information provided, researchers may then decide whether to ring back the caller or simply ignore their call.<p>''"

definition sidebar_oklahoma :: string where
  "sidebar_oklahoma =
     ''<span>Oklahoma Reverse Phone Lookup</span><p>Reverse phone lookup involves identifying an unknown caller by their phone number. Carrier directories and other databases of subscriber information make reverse phone searches possible. When registering new phone numbers, carriers collect identifying information from new subscribers. When searching an Oklahoma phone number using a lookup tool, the reverse phone lookup service consults the databases of all major carriers operating in the state. Identifying unknown callers can help Oklahoma residents avoid phone scams, spam calls, and robocalls.<p>''"

definition sidebar_texas :: string where
  "sidebar_texas =
     ''<span>Texas Reverse Phone Lookup</span><p>Reverse phone search, or phone number lookup, refers to the process in which an individual can discover more about the person behind a phone number. Because paperwork and other information is required to be provided when being granted a phone number, it is possible to learn more about the individual calling you simply by using the phone number they used to call. <p>''"

definition sidebar_vermont :: string where
  "sidebar_vermont =
     ''<span>Vermont Reverse Phone Lookup</span><p>Reverse phone lookup, or reverse phone search, allows you to find out who owns unknown numbers calling you. These searches are essential everytime you receive unknown phone calls from mobile, landline, or VoIP numbers bearing Vermont area codes. Performing reverse phone search sheds more light on whether a caller is a scammer, an offender, someone you would rather not talk to, or perhaps a family or old friend that acquired a new number. Reverse phone search engines provide detailed information about unknown numbers including the owner&#39;s name and listed address.<p>''"

definition sidebar_alabama :: string where
  "sidebar_alabama =
     ''<span>Alabama Reverse Phone Lookup</span><p>Reverse phone lookup is a procedure for retrieving user information for a telephone number. Also referred to as phone number search, it is a search process that returns the information registered by the person who acquired the phone number. Anyone who purchases a phone line is required to provide a form of identification and relevant user information which is registered in a user account directory. Reverse phone lookup or phone number search provides access to this directory and the information stored in it, typically to verify the owner of an unknown number.<p>''"

definition sidebar_washington :: string where
  "sidebar_washington =
     ''<span>Washington Reverse Phone Lookup</span><p>Reverse phone lookup is a process whereby individuals try to learn about unknown phone numbers that called them, using third-party services. Also known as reverse phone search, it searches and returns information about the person who registered a phone number. When applying for phone numbers, subscriber information must be provided which will include identification and contact details. A reverse phone search accesses this information and can provide an answer to the question &quot;who is this number registered to&quot;?<p>''"

definition sidebar_arizona :: string where
  "sidebar_arizona =
     ''<span>Arizona Reverse Phone Lookup</span><p>Performing a reverse phone lookup is a way of getting to know the identity of the owner of a particular phone number by searching with just the phone number. One major distinction between carrying out a reverse phone lookup and looking up a regular directory is that in this case, the phone number is used for the search. This brings up other information about the owner of any number. This subscriber information is provided when registering a new phone number. It includes the name and address of the individual assigned the number. These details are provided when conducting a reverse phone lookup on a phone number.\<newline><p>''"

definition sidebar_arkansas :: string where
  "sidebar_arkansas =
     ''<span>Arkansas Reverse Phone Lookup</span><p>Reverse phone lookup is the process of identifying an unknown caller by searching with the number. It is a way to find information about a caller whose number is not stored in the recipient&#39;s phone. Reverse phone number lookup pulls information from telephone registration records of subscribers maintained by carriers.\<newline><p>''"

definition sidebar_colorado :: string where
  "sidebar_colorado =
     ''<span>Colorado Reverse Phone Lookup</span><p>A phone number lookup or reverse phone search refers to the act of retrieving the registrant&#39;s details for a number that called you. These details include the name of the registrant, their home or office address, and other pertinent details. Subscribers are required to provide these details when registering new numbers and reverse phone lookups provide access to search and retrieve such information.<p>''"

definition sidebar_delaware :: string where
  "sidebar_delaware =
     ''<span>Delaware Reverse Phone Lookup</span><p>Reverse phone lookup is a way of finding people and businesses using their phone numbers alone. With spam and scam calls becoming rampant, most people are reluctant to pick calls from unrecognized numbers. Knowing the true identity of an unknown caller is one of the various reasons why someone may decide to perform a reverse phone search. Phone number lookup services have extensive access to phone subscriber information and can return detailed search results when queried with Delaware phone numbers.<p>''"

definition sidebar_districtofcolumbia :: string where
  "sidebar_districtofcolumbia =
     ''<span>District of Columbia Reverse Phone Lookup</span><p>Reverse phone search or phone number lookup is a way of using a phone number to obtain more information about the owner. The usual procedure of looking up a standard phone directory is to use the subscriber&#39;s name and address to get the phone number. In reverse phone search, it is the phone number used to discover details like the name, gender, address, and other publicly available records about the subscriber that owns the number. This is possible because of the data collated during the registration process required when obtaining a new number. Phone lookups bring up these details when residents of the District of Columbia submit phone numbers to their search engines.<p>''"

definition sidebar_georgia :: string where
  "sidebar_georgia =
     ''<span>Georgia Reverse Phone Lookup</span><p>Reverse phone search or phone number lookup is a way of getting the name of someone and possibly, their personal details from a phone number. There are online phone number lookup services that can retrieve registration information when provided with phone numbers. Understanding how these lookup services work and how you can use them to your advantage is needed to identify malicious callers.<p>''"

definition sidebar_hawaii :: string where
  "sidebar_hawaii =
     ''<span>Hawaii Reverse Phone Lookup</span><p>Reverse phone search, otherwise called phone number lookup, is the process of discovering more details about the person a phone number is registered to, using just the phone number. Identifying the owner of a phone number in this way is possible because carriers require new subscribers to provide certain information when registering their numbers. Hawaiians can use phone lookup services to identify unknown callers and avoid phone scammers and spam calls.<p>''"

definition sidebar_idaho :: string where
  "sidebar_idaho =
     ''<span>Idaho Reverse Phone Lookup</span><p>A reverse phone lookup is a process of learning the ownership details attached to an unknown telephone number. It is also referred to as a phone number lookup. These details are required during the process of applying for a phone number and stored in the carrier&#39;s user directory. Details will typically include names, home or office addresses, social security numbers, and other pertinent information. A reverse phone search provides access to the user directory to retrieve the available information on the phone number being looked up.<p>''"

definition sidebar_illinois :: string where
  "sidebar_illinois =
     ''<span>Illinois Reverse Phone Lookup</span><p>Reverse phone search or phone number lookup describes being able to search and retrieve customer information for telephone service numbers. One reason for doing this is identifying an unknown caller. Information provided to phone service providers when procuring the phone numbers are available in directories are accessible by vendors providing reverse phone searches.<p>''"

definition sidebar_iowa :: string where
  "sidebar_iowa =
     ''<span>Iowa Reverse Phone Lookup</span><p>Reverse phone lookup, or reverse phone search, is a report that shows the individual or business associated with a phone number. This report is essential whenever you receive a phone call from a phone number bearing Iowa area code that you do not recognize and want to find out if it is a scam or a spam number, or maybe a phone number owned by a person you know. Reverse phone lookup can be performed for all phone numbers, including landlines, cell phone numbers, and VoIP numbers. Most comprehensive reverse phone search engines provide detailed information, which can include the unknown caller&#39;s full name, their address, and other secondary information.<p>''"

definition sidebar_kentucky :: string where
  "sidebar_kentucky =
     ''<span>Kentucky Reverse Phone Lookup</span><p>Reverse phone search or phone number lookup describes the process through which one can get vital information about the identity of the person registered to a telephone number. This is made possible because every subscriber is required to supply their biodata for the purpose of verification when registering a new phone line.<p>''"

definition sidebar_maine :: string where
  "sidebar_maine =
     ''<span>Maine Reverse Phone Lookup</span><p>Reverse phone lookup refers to searching with a phone number to identify an unknown caller. Phone lookup services allow anyone to find callers using only their phone numbers. In addition to the caller&#39;s name and address, a reverse phone lookup may also find other details such as gender, phone type, and social media accounts. Therefore, a reverse phone search can help you answer the question: &quot;who called me?&quot; and can be used in certain cases to conduct a soft background check.<p>''"

definition sidebar_massachusetts :: string where
  "sidebar_massachusetts =
     ''<span>Massachusetts Reverse Phone Lookup</span><p>Reverse phone lookup, also known as reverse phone search, refers to the process of retrieving the personal information attached to a registered phone number. Certain information like the caller&#39;s name and residential address can be accessed. Information provided as a requirement for obtaining a registered phone number makes reverse phone lookup possible.<p>''"

definition sidebar_wisconsin :: string where
  "sidebar_wisconsin =
     ''<span>Wisconsin Reverse Phone Lookup</span><p>A reverse phone search or phone lookup is the act of searching through a reverse phone directory for the ownership details of a phone number. When applying for a phone number, some of the mandatory details provided include basic information such as a full name and an address. Therefore, if you can recollect the phone number you were called with, you will be able to answer the question &quot;who called me?&quot;<p>''"

definition sidebar_missouri :: string where
  "sidebar_missouri =
     ''<span>Missouri Reverse Phone Lookup</span><p>Reverse phone lookups describe the process of searching and retrieving user details for telephone service numbers. When acquiring their phone numbers, users are required to fill out application forms to record their personal information including names and addresses. A reverse phone search, also referred to as phone number lookup, is the process of retrieving this information. The identification of whom a number is registered to is one of the most common reasons for doing this.\<newline><p>''"

definition sidebars :: "(string \<times> string) list" where
  "sidebars =
    [(''montana'', sidebar_montana),
     (''florida'', sidebar_florida),
     (''alaska'', sidebar_alaska),
     (''nebraska'', sidebar_nebraska),
     (''nevada'', sidebar_nevada),
     (''newjersey'', sidebar_newjersey),
     (''newyork'', sidebar_newyork),
     (''connecticut'', sidebar_connecticut),
     (''indiana'', sidebar_indiana),
     (''kansas'', sidebar_kansas),
     (''louisiana'', sidebar_louisiana),
     (''maryland'', sidebar_maryland),
     (''michigan'', sidebar_michigan),
     (''minnesota'', sidebar_minnesota),
     (''mississippi'', sidebar_mississippi),
     (''northcarolina'', sidebar_northcarolina),
     (''northdakota'', sidebar_northdakota),
     (''ohio'', sidebar_ohio),
     (''oregon'', sidebar_oregon),
     (''pennsylvania'', sidebar_pennsylvania),
     (''rhodeisland'', sidebar_rhodeisland),
     (''southcarolina'', sidebar_southcarolina),
     (''southdakota'', sidebar_southdakota),
     (''tennessee'', sidebar_tennessee),
     (''utah'', sidebar_utah),
     (''virginia'', sidebar_virginia),
     (''westvirginia'', sidebar_westvirginia),
     (''wyoming'', sidebar_wyoming),
     (''california'', sidebar_california),
     (''newhampshire'', sidebar_newhampshire),
     (''newmexico'', sidebar_newmexico),
     (''oklahoma'', sidebar_oklahoma),
     (''texas'', sidebar_texas),
     (''vermont'', sidebar_vermont),
     (''alabama'', sidebar_alabama),
     (''washington'', sidebar_washington),
     (''arizona'', sidebar_arizona),
     (''arkansas'', sidebar_arkansas),
     (''colorado'', sidebar_colorado),
     (''delaware'', sidebar_delaware),
     (''districtofcolumbia'', sidebar_districtofcolumbia),
     (''georgia'', sidebar_georgia),
     (''hawaii'', sidebar_hawaii),
     (''idaho'', sidebar_idaho),
     (''illinois'', sidebar_illinois),
     (''iowa'', sidebar_iowa),
     (''kentucky'', sidebar_kentucky),
     (''maine'', sidebar_maine),
     (''massachusetts'', sidebar_massachusetts),
     (''wisconsin'', sidebar_wisconsin),
     (''missouri'', sidebar_missouri)]"

text \<open>
  \<open>process.env.subdomain\<close> as a property key and inside a template literal: an unset
  variable reads \<open>undefined\<close>.
\<close>

definition envString :: "string option \<Rightarrow> string" where
  "envString v = (case v of None \<Rightarrow> ''undefined'' | Some s \<Rightarrow> s)"

text \<open>
  The data after the three assignments of \<open>addPost\<close>. \<open>sidebars[subdomain]\<close> reads
  the table's own entries; a name that JavaScript would find on \<open>Object.prototype\<close>
  (such as \<open>constructor\<close>) is outside the model, the subdomain being the name of a
  state.
\<close>

definition addPost :: "env \<Rightarrow> object \<Rightarrow> object" where
  "addPost E data =
     data(''domain'' := (case subdomain E of None \<Rightarrow> Undefined | Some s \<Rightarrow> Str s),
          ''custom_excerpt'' :=
            (case map_of sidebars (envString (subdomain E)) of
               None \<Rightarrow> Undefined
             | Some html \<Rightarrow> Str html),
          ''feature_image'' :=
            Str (''https://cdn.staterecords.org/pn_logos/'' @ envString (subdomain E) @ ''.png''))"

text \<open>
  \<open>add\<close>: the inherited add stores the data, then the post is read back by its id. Both
  branches on \<open>options.transacting\<close> run the same \<open>addPost\<close>.
\<close>

definition add :: "env \<Rightarrow> object \<Rightarrow> options \<Rightarrow> error + model option" where
  "add E data unfilteredOptions =
     (case base_add E (addPost E data) (filterOptions E unfilteredOptions ''add'') of
        Inl e \<Rightarrow> Inl e
      | Inr post \<Rightarrow> Inr (findOne E (model_id post)))"

section \<open>Reading the outcome of a save\<close>

text \<open>The error of a rejected save, \<open>None\<close> when the save resolves.\<close>

definition rejection :: "(error \<times> model) + model \<Rightarrow> error option" where
  "rejection r = (case r of Inl (e, st) \<Rightarrow> Some e | Inr m \<Rightarrow> None)"

text \<open>
  The model as the inherited \<open>onSaving\<close> hook hands it back to the post model (the model
  at the rejection, when the save is rejected before the hook is called).
\<close>

definition hookResult :: "env \<Rightarrow> options \<Rightarrow> model \<Rightarrow> model" where
  "hookResult E opts this =
     (case beforeBaseHook E opts this of
        Inl (e, st) \<Rightarrow> st
      | Inr m \<Rightarrow> base_onSaving E m)"

text \<open>The logical sequence number of a stored revision row.\<close>

definition created_at_ts :: "jsval \<Rightarrow> int" where
  "created_at_ts row = (case field row ''created_at_ts'' of Num n \<Rightarrow> n | _ \<Rightarrow> 0)"

section \<open>Example data\<close>

text \<open>
  A concrete environment, options and stored posts, on which the theorems below are
  instantiated. \<open>fetched attrs\<close> is a model as it comes from the storage: its current
  and previous attributes agree.
\<close>

definition noAttributes :: object where
  "noAttributes = (\<lambda>k. Undefined)"

definition fetched :: "object \<Rightarrow> model" where
  "fetched attrs =
     \<lparr>model_id = attrs ''id'', attributes = attrs, previousAttributes = attrs,
      related_tags = [], related_authors = [], related_posts_meta_id = Undefined\<rparr>"

definition exampleEnv :: env where
  "exampleEnv =
     \<lparr>subdomain = Some ''texas'',
      cannotScheduleAPostBeforeInMinutes = 2,
      now_schedule = 1000000,
      now_published = 1000001,
      now_revision_prev = 1000002,
      now_revision = 1000003,
      parseMoment = (\<lambda>v. None),
      dateToString = (\<lambda>d. ''Invalid Date''),
      toLocaleLowerCase = (\<lambda>s. s),
      untitled = ''(Untitled)'',
      blankDocument = ''{}'',
      hasDateChanged = (\<lambda>m k beforeWrite. hasChanged m k),
      contextUser = (\<lambda>opts. Str ''actor1''),
      generateSlug = (\<lambda>v imp. case v of Str s \<Rightarrow> ''slug-of-'' @ s | _ \<Rightarrow> ''untitled''),
      filterOptions = (\<lambda>opts methodName. opts),
      base_onSaving = (\<lambda>m. m),
      base_onUpdated = (\<lambda>m. m),
      base_add = (\<lambda>data opts. Inr (fetched data)),
      findOne = (\<lambda>i. None),
      urlUtils = (\<lambda>transformMethod v transformOptions. v),
      populateImageSizes = (\<lambda>v. v),
      render = (\<lambda>v. case v of
                      Str s \<Rightarrow> if s = ''not json'' then None else Some (Str (''<p>'' @ s @ ''</p>''))
                    | _ \<Rightarrow> None),
      htmlToText = (\<lambda>v. v),
      emailExists = False,
      findAllRevisions = (\<lambda>i. [])\<rparr>"

definition exampleOptions :: options where
  "exampleOptions =
     \<lparr>method' = ''update'', importing = False, migrating = False, context' = None,
      force_rerender = False, send_email_when_published = False\<rparr>"

definition draftAttrs :: object where
  "draftAttrs =
     noAttributes(''id'' := Str ''p1'', ''type'' := Str ''post'', ''status'' := Str ''draft'',
       ''title'' := Str ''Hello'', ''slug'' := Str ''slug-of-Hello'', ''mobiledoc'' := Str ''old'',
       ''html'' := Str ''<p>old</p>'', ''plaintext'' := Str ''<p>old</p>'')"

definition publishedAttrs :: object where
  "publishedAttrs =
     draftAttrs(''status'' := Str ''published'', ''published_at'' := Date (Some 500000),
       ''published_by'' := Str ''actor0'')"

definition contributor :: loadedPermissions where
  "contributor = \<lparr>user = Some [''Contributor''], apiKey = None\<rparr>"

text \<open>A post with eleven stored revisions, listed newest first.\<close>

definition storedRevision :: "int \<Rightarrow> jsval" where
  "storedRevision n =
     Obj [(''id'', Num n), (''post_id'', Str ''p1''), (''mobiledoc'', Str ''body''),
          (''created_at_ts'', Num (2000 - n))]"

definition storedRevisions :: "jsval list" where
  "storedRevisions = map storedRevision [1, 2, 3, 4, 5, 6, 7, 8, 9, 10, 11]"

definition historyEnv :: env where
  "historyEnv = exampleEnv\<lparr>findAllRevisions := (\<lambda>i. storedRevisions)\<rparr>"

section \<open>Basic facts\<close>

lemma strict_eq_Str [simp]: "strict_eq v (Str s) = (v = Str s)"
  by (cases v) auto

lemma strict_eq_Str_left [simp]: "strict_eq (Str s) v = (v = Str s)"
  by (cases v) auto

lemma strict_eq_Undefined [simp]: "strict_eq v Undefined = (v = Undefined)"
  by (cases v) auto

lemma get_set_attr [simp]: "get (set_attr m k v) k' = (if k' = k then v else get m k')"
  by (simp add: get_def set_attr_def)

lemma previous_set_attr [simp]: "previous (set_attr m k v) k' = previous m k'"
  by (simp add: previous_def set_attr_def)

lemma model_id_set_attr [simp]: "model_id (set_attr m k v) = model_id m"
  by (simp add: set_attr_def)

lemma set_attr_same: "get m k = v \<Longrightarrow> set_attr m k v = m"
  by (auto simp: set_attr_def get_def)

lemma set_attr_twice [simp]: "set_attr (set_attr m k v) k w = set_attr m k w"
  by (simp add: set_attr_def)

lemma set_attr_swap: "k \<noteq> k' \<Longrightarrow> set_attr (set_attr m k v) k' w = set_attr (set_attr m k' w) k v"
  by (auto simp: set_attr_def fun_upd_twist)

lemma get_fetched [simp]: "get (fetched attrs) k = attrs k"
  by (simp add: get_def fetched_def)

lemma previous_fetched [simp]: "previous (fetched attrs) k = attrs k"
  by (simp add: previous_def fetched_def)

lemma model_id_fetched [simp]: "model_id (fetched attrs) = attrs ''id''"
  by (simp add: fetched_def)

subsection \<open>What each step of \<open>onSaving\<close> leaves alone\<close>

lemma revertField_get:
  "get (revertField m f) k = (if k = f then previous m f else get m k)"
  by (simp add: revertField_def hasChanged_def)

lemma revertField_previous [simp]: "previous (revertField m f) k = previous m k"
  by (simp add: revertField_def)

lemma revertField_model_id [simp]: "model_id (revertField m f) = model_id m"
  by (simp add: revertField_def)

lemma revertGeneratedFields_get:
  "get (revertGeneratedFields opts m) k =
     (if \<not> migrating opts \<and> (k = ''html'' \<or> k = ''plaintext'') then previous m k else get m k)"
  by (simp add: revertGeneratedFields_def generatedFields_def revertField_get)

lemma revertGeneratedFields_previous [simp]:
  "previous (revertGeneratedFields opts m) k = previous m k"
  by (simp add: revertGeneratedFields_def generatedFields_def)

lemma revertGeneratedFields_model_id [simp]:
  "model_id (revertGeneratedFields opts m) = model_id m"
  by (simp add: revertGeneratedFields_def generatedFields_def)

lemma defaultMobiledoc_get [simp]:
  "k \<noteq> ''mobiledoc'' \<Longrightarrow> get (defaultMobiledoc E m) k = get m k"
  by (simp add: defaultMobiledoc_def)

lemma defaultMobiledoc_previous [simp]: "previous (defaultMobiledoc E m) k = previous m k"
  by (simp add: defaultMobiledoc_def)

lemma defaultMobiledoc_model_id [simp]: "model_id (defaultMobiledoc E m) = model_id m"
  by (simp add: defaultMobiledoc_def)

lemma transformUrl_get: "k \<noteq> fst t \<Longrightarrow> get (transformUrl E m t) k = get m k"
  by (cases t) (simp add: transformUrl_def)

lemma transformUrl_previous [simp]: "previous (transformUrl E m t) k = previous m k"
  by (cases t) (simp add: transformUrl_def)

lemma transformUrl_model_id [simp]: "model_id (transformUrl E m t) = model_id m"
  by (cases t) (simp add: transformUrl_def)

lemma foldl_transformUrl_get:
  "k \<notin> fst ` set ts \<Longrightarrow> get (foldl (transformUrl E) m ts) k = get m k"
  by (induction ts arbitrary: m) (auto simp: transformUrl_get)

lemma foldl_transformUrl_previous:
  "previous (foldl (transformUrl E) m ts) k = previous m k"
  by (induction ts arbitrary: m) auto

lemma foldl_transformUrl_model_id:
  "model_id (foldl (transformUrl E) m ts) = model_id m"
  by (induction ts arbitrary: m) auto

lemma transformUrls_get:
  "k \<notin> fst ` set urlTransformMap \<Longrightarrow> get (transformUrls E m) k = get m k"
  by (simp add: transformUrls_def foldl_transformUrl_get)

lemma transformUrls_previous [simp]: "previous (transformUrls E m) k = previous m k"
  by (simp add: transformUrls_def foldl_transformUrl_previous)

lemma transformUrls_model_id [simp]: "model_id (transformUrls E m) = model_id m"
  by (simp add: transformUrls_def foldl_transformUrl_model_id)

lemma forceRerender_get [simp]:
  "k \<noteq> ''mobiledoc'' \<Longrightarrow> get (forceRerender E opts m) k = get m k"
  by (simp add: forceRerender_def)

lemma forceRerender_previous [simp]: "previous (forceRerender E opts m) k = previous m k"
  by (simp add: forceRerender_def)

lemma forceRerender_model_id [simp]: "model_id (forceRerender E opts m) = model_id m"
  by (simp add: forceRerender_def)

lemma renderHtml_get:
  "renderHtml E opts m = Inr m' \<Longrightarrow> k \<noteq> ''html'' \<Longrightarrow> get m' k = get m k"
  by (auto simp: renderHtml_def split: if_splits option.splits)

lemma renderHtml_previous:
  "renderHtml E opts m = Inr m' \<Longrightarrow> previous m' k = previous m k"
  by (auto simp: renderHtml_def split: if_splits option.splits)

lemma renderHtml_model_id:
  "renderHtml E opts m = Inr m' \<Longrightarrow> model_id m' = model_id m"
  by (auto simp: renderHtml_def split: if_splits option.splits)

lemma updatePlaintext_get [simp]:
  "k \<noteq> ''plaintext'' \<Longrightarrow> get (updatePlaintext E m) k = get m k"
  by (simp add: updatePlaintext_def)

lemma updatePlaintext_previous [simp]: "previous (updatePlaintext E m) k = previous m k"
  by (simp add: updatePlaintext_def)

lemma updatePlaintext_model_id [simp]: "model_id (updatePlaintext E m) = model_id m"
  by (simp add: updatePlaintext_def)

lemma sanitizeTitle_get [simp]:
  "k \<noteq> ''title'' \<Longrightarrow> get (sanitizeTitle E opts m) k = get m k"
  by (simp add: sanitizeTitle_def)

lemma sanitizeTitle_previous [simp]: "previous (sanitizeTitle E opts m) k = previous m k"
  by (simp add: sanitizeTitle_def)

lemma sanitizeTitle_model_id [simp]: "model_id (sanitizeTitle E opts m) = model_id m"
  by (simp add: sanitizeTitle_def)

lemma setPublishedAt_get [simp]:
  "k \<noteq> ''published_at'' \<Longrightarrow> get (setPublishedAt E entry m) k = get m k"
  by (simp add: setPublishedAt_def)

lemma setPublishedAt_previous [simp]: "previous (setPublishedAt E entry m) k = previous m k"
  by (simp add: setPublishedAt_def)

lemma setPublishedAt_model_id [simp]: "model_id (setPublishedAt E entry m) = model_id m"
  by (simp add: setPublishedAt_def)

lemma setPublishedBy_get [simp]:
  "k \<noteq> ''published_by'' \<Longrightarrow> get (setPublishedBy E opts entry m) k = get m k"
  by (simp add: setPublishedBy_def)

lemma setPublishedBy_previous [simp]:
  "previous (setPublishedBy E opts entry m) k = previous m k"
  by (simp add: setPublishedBy_def)

lemma setPublishedBy_model_id [simp]: "model_id (setPublishedBy E opts entry m) = model_id m"
  by (simp add: setPublishedBy_def)

lemma setSendEmailWhenPublished_get [simp]:
  "k \<noteq> ''send_email_when_published'' \<Longrightarrow>
   get (setSendEmailWhenPublished opts entry m) k = get m k"
  by (simp add: setSendEmailWhenPublished_def)

lemma setSendEmailWhenPublished_previous [simp]:
  "previous (setSendEmailWhenPublished opts entry m) k = previous m k"
  by (simp add: setSendEmailWhenPublished_def)

lemma setSendEmailWhenPublished_model_id [simp]:
  "model_id (setSendEmailWhenPublished opts entry m) = model_id m"
  by (simp add: setSendEmailWhenPublished_def)

lemma ensureSendEmail_get [simp]:
  "k \<noteq> ''send_email_when_published'' \<Longrightarrow>
   get (ensureSendEmailWhenPublishedIsUnchanged E m) k = get m k"
  by (simp add: ensureSendEmailWhenPublishedIsUnchanged_def)

lemma ensureSendEmail_previous [simp]:
  "previous (ensureSendEmailWhenPublishedIsUnchanged E m) k = previous m k"
  by (simp add: ensureSendEmailWhenPublishedIsUnchanged_def)

lemma ensureSendEmail_model_id [simp]:
  "model_id (ensureSendEmailWhenPublishedIsUnchanged E m) = model_id m"
  by (simp add: ensureSendEmailWhenPublishedIsUnchanged_def)

lemma updateSlug_get [simp]:
  "k \<noteq> ''slug'' \<Longrightarrow> get (updateSlug E opts entry m) k = get m k"
  by (simp add: updateSlug_def updateSlugFromTitle_def updateSlugFromField_def)

lemma updateSlug_previous [simp]: "previous (updateSlug E opts entry m) k = previous m k"
  by (simp add: updateSlug_def updateSlugFromTitle_def updateSlugFromField_def)

lemma updateSlug_model_id [simp]: "model_id (updateSlug E opts entry m) = model_id m"
  by (simp add: updateSlug_def updateSlugFromTitle_def updateSlugFromField_def)

lemma updateRevisions_get [simp]:
  "k \<noteq> ''mobiledoc_revisions'' \<Longrightarrow> get (updateRevisions E opts m) k = get m k"
  by (simp add: updateRevisions_def)

lemma updateRevisions_previous [simp]: "previous (updateRevisions E opts m) k = previous m k"
  by (simp add: updateRevisions_def)

lemma updateRevisions_model_id [simp]: "model_id (updateRevisions E opts m) = model_id m"
  by (simp add: updateRevisions_def)

lemma sequence_ops_get:
  "k \<noteq> ''send_email_when_published'' \<Longrightarrow> k \<noteq> ''slug'' \<Longrightarrow> k \<noteq> ''mobiledoc_revisions'' \<Longrightarrow>
   get (sequence_ops E opts entry q) k = get q k"
  by (simp add: sequence_ops_def Let_def)

lemma sequence_ops_previous [simp]: "previous (sequence_ops E opts entry q) k = previous q k"
  by (simp add: sequence_ops_def Let_def)

lemma sequence_ops_model_id [simp]: "model_id (sequence_ops E opts entry q) = model_id q"
  by (simp add: sequence_ops_def Let_def)

subsection \<open>The shape of a save that resolves\<close>

lemma onSaving_Inr:
  assumes "onSaving E this opts = Inr m'"
  obtains m1 q where "beforeBaseHook E opts this = Inr m1"
    and "hookResult E opts this = base_onSaving E m1"
    and "afterBaseHook E opts this (hookResult E opts this) = Inr q"
    and "m' = sequence_ops E opts this q"
  using assms by (auto simp: onSaving_def hookResult_def split: sum.splits)

lemma afterBaseHook_Inr:
  assumes "afterBaseHook E opts entry b = Inr q"
  obtains r where
    "renderHtml E opts
       (forceRerender E opts
         (transformUrls E (defaultMobiledoc E (revertGeneratedFields opts b)))) = Inr r"
    and "q = setSendEmailWhenPublished opts entry
               (setPublishedBy E opts entry
                 (setPublishedAt E entry (sanitizeTitle E opts (updatePlaintext E r))))"
  using assms by (auto simp: afterBaseHook_def split: sum.splits)

text \<open>Up to the rendering, only the body, the generated fields and the URLs are written.\<close>

lemma rendered_get:
  assumes "renderHtml E opts
             (forceRerender E opts
               (transformUrls E (defaultMobiledoc E (revertGeneratedFields opts b)))) = Inr r"
    and "k \<noteq> ''html''" and "k \<noteq> ''plaintext''" and "k \<noteq> ''mobiledoc''"
    and "k \<notin> fst ` set urlTransformMap"
  shows "get r k = get b k"
  using assms(2-)
  by (simp add: renderHtml_get [OF assms(1)] transformUrls_get revertGeneratedFields_get)

lemma rendered_previous:
  assumes "renderHtml E opts
             (forceRerender E opts
               (transformUrls E (defaultMobiledoc E (revertGeneratedFields opts b)))) = Inr r"
  shows "previous r k = previous b k"
  by (simp add: renderHtml_previous [OF assms])

lemma rendered_model_id:
  assumes "renderHtml E opts
             (forceRerender E opts
               (transformUrls E (defaultMobiledoc E (revertGeneratedFields opts b)))) = Inr r"
  shows "model_id r = model_id b"
  by (simp add: renderHtml_model_id [OF assms])

lemma url_keys:
  "''status'' \<notin> fst ` set urlTransformMap"
  "''published_by'' \<notin> fst ` set urlTransformMap"
  "''published_at'' \<notin> fst ` set urlTransformMap"
  "''slug'' \<notin> fst ` set urlTransformMap"
  "''title'' \<notin> fst ` set urlTransformMap"
  "''html'' \<notin> fst ` set urlTransformMap"
  "''plaintext'' \<notin> fst ` set urlTransformMap"
  by (simp_all add: urlTransformMap_def)

text \<open>
  The synchronous part after the inherited hook writes only the generated fields, the
  body, the URL attributes, the title and the publication fields.
\<close>

lemma afterBaseHook_get:
  assumes "afterBaseHook E opts entry b = Inr q"
    and "k \<notin> {''html'', ''plaintext'', ''mobiledoc'', ''title'', ''published_at'',
               ''published_by'', ''send_email_when_published''}"
    and "k \<notin> fst ` set urlTransformMap"
  shows "get q k = get b k"
proof -
  from assms(1) obtain r where
    r: "renderHtml E opts
          (forceRerender E opts
            (transformUrls E (defaultMobiledoc E (revertGeneratedFields opts b)))) = Inr r"
    and q: "q = setSendEmailWhenPublished opts entry
                  (setPublishedBy E opts entry
                    (setPublishedAt E entry (sanitizeTitle E opts (updatePlaintext E r))))"
    by (rule afterBaseHook_Inr)
  have "get q k = get r k"
    using assms(2) by (simp add: q)
  also have "\<dots> = get b k"
    using assms(2,3) by (simp add: rendered_get [OF r])
  finally show ?thesis .
qed

lemma afterBaseHook_previous:
  assumes "afterBaseHook E opts entry b = Inr q"
  shows "previous q k = previous b k"
proof -
  from assms obtain r where
    r: "renderHtml E opts
          (forceRerender E opts
            (transformUrls E (defaultMobiledoc E (revertGeneratedFields opts b)))) = Inr r"
    and q: "q = setSendEmailWhenPublished opts entry
                  (setPublishedBy E opts entry
                    (setPublishedAt E entry (sanitizeTitle E opts (updatePlaintext E r))))"
    by (rule afterBaseHook_Inr)
  show ?thesis
    by (simp add: q rendered_previous [OF r])
qed

lemma afterBaseHook_model_id:
  assumes "afterBaseHook E opts entry b = Inr q"
  shows "model_id q = model_id b"
proof -
  from assms obtain r where
    r: "renderHtml E opts
          (forceRerender E opts
            (transformUrls E (defaultMobiledoc E (revertGeneratedFields opts b)))) = Inr r"
    and q: "q = setSendEmailWhenPublished opts entry
                  (setPublishedBy E opts entry
                    (setPublishedAt E entry (sanitizeTitle E opts (updatePlaintext E r))))"
    by (rule afterBaseHook_Inr)
  show ?thesis
    by (simp add: q rendered_model_id [OF r])
qed

subsection \<open>The queued operations\<close>

lemma revisionEntry_model_id:
  "model_id a = model_id b \<Longrightarrow> revisionEntry a body ts = revisionEntry b body ts"
  by (simp add: revisionEntry_def)

text \<open>The revisions operation is the last one; it runs when the body has changed.\<close>

lemma revisions_written:
  assumes "onSaving E this opts = Inr m'"
    and "hasChanged m' ''mobiledoc''"
    and "\<not> importing opts" and "\<not> migrating opts"
  obtains s where "m' = updateRevisions E opts s"
    and "model_id s = model_id m'"
    and "get s ''mobiledoc'' = get m' ''mobiledoc''"
    and "previous s ''mobiledoc'' = previous m' ''mobiledoc''"
proof -
  from assms(1) obtain q where m': "m' = sequence_ops E opts this q"
    by (rule onSaving_Inr)
  have "hasChanged q ''mobiledoc''"
    using assms(2) by (simp add: hasChanged_def m' sequence_ops_get)
  with assms(3,4) have upd: "m' =
      updateRevisions E opts
        (updateSlug E opts this
          (if strict_eq (newStatus this) (Str ''draft'') \<and> hasChanged q ''status''
           then ensureSendEmailWhenPublishedIsUnchanged E q else q))"
    by (simp add: m' sequence_ops_def Let_def)
  show thesis
  proof (rule that [OF upd])
    show "model_id (updateSlug E opts this
            (if strict_eq (newStatus this) (Str ''draft'') \<and> hasChanged q ''status''
             then ensureSendEmailWhenPublishedIsUnchanged E q else q)) = model_id m'"
      by (simp add: m')
    show "get (updateSlug E opts this
            (if strict_eq (newStatus this) (Str ''draft'') \<and> hasChanged q ''status''
             then ensureSendEmailWhenPublishedIsUnchanged E q else q)) ''mobiledoc''
          = get m' ''mobiledoc''"
      by (simp add: m' sequence_ops_get)
    show "previous (updateSlug E opts this
            (if strict_eq (newStatus this) (Str ''draft'') \<and> hasChanged q ''status''
             then ensureSendEmailWhenPublishedIsUnchanged E q else q)) ''mobiledoc''
          = previous m' ''mobiledoc''"
      by (simp add: m')
  qed
qed

lemma updateSlug_slug_cong:
  assumes "get s ''slug'' = get q ''slug''" and "get s ''title'' = get q ''title''"
    and "previous s ''slug'' = previous q ''slug''"
  shows "get (updateSlug E opts entry s) ''slug'' = get (updateSlug E opts entry q) ''slug''"
  by (simp add: updateSlug_def updateSlugFromTitle_def updateSlugFromField_def hasChanged_def
      assms)

lemma sequence_ops_slug:
  "get (sequence_ops E opts entry q) ''slug'' = get (updateSlug E opts entry q) ''slug''"
proof -
  define s1 where "s1 = (if strict_eq (newStatus entry) (Str ''draft'') \<and> hasChanged q ''status''
                         then ensureSendEmailWhenPublishedIsUnchanged E q else q)"
  have "get (sequence_ops E opts entry q) ''slug'' = get (updateSlug E opts entry s1) ''slug''"
    by (simp add: sequence_ops_def Let_def s1_def)
  also have "\<dots> = get (updateSlug E opts entry q) ''slug''"
    by (rule updateSlug_slug_cong) (simp_all add: s1_def)
  finally show ?thesis .
qed

subsection \<open>Running the model on the example data\<close>

lemma exampleEnv_fields:
  "subdomain exampleEnv = Some ''texas''"
  "cannotScheduleAPostBeforeInMinutes exampleEnv = 2"
  "now_schedule exampleEnv = 1000000"
  "now_published exampleEnv = 1000001"
  "now_revision_prev exampleEnv = 1000002"
  "now_revision exampleEnv = 1000003"
  "parseMoment exampleEnv = (\<lambda>v. None)"
  "dateToString exampleEnv = (\<lambda>d. ''Invalid Date'')"
  "toLocaleLowerCase exampleEnv = (\<lambda>s. s)"
  "untitled exampleEnv = ''(Untitled)''"
  "blankDocument exampleEnv = ''{}''"
  "hasDateChanged exampleEnv = (\<lambda>m k beforeWrite. hasChanged m k)"
  "contextUser exampleEnv = (\<lambda>opts. Str ''actor1'')"
  "generateSlug exampleEnv = (\<lambda>v imp. case v of Str s \<Rightarrow> ''slug-of-'' @ s | _ \<Rightarrow> ''untitled'')"
  "filterOptions exampleEnv = (\<lambda>opts methodName. opts)"
  "base_onSaving exampleEnv = (\<lambda>m. m)"
  "base_onUpdated exampleEnv = (\<lambda>m. m)"
  "base_add exampleEnv = (\<lambda>data opts. Inr (fetched data))"
  "findOne exampleEnv = (\<lambda>i. None)"
  "urlUtils exampleEnv = (\<lambda>transformMethod v transformOptions. v)"
  "populateImageSizes exampleEnv = (\<lambda>v. v)"
  "render exampleEnv = (\<lambda>v. case v of
       Str s \<Rightarrow> if s = ''not json'' then None else Some (Str (''<p>'' @ s @ ''</p>''))
     | _ \<Rightarrow> None)"
  "htmlToText exampleEnv = (\<lambda>v. v)"
  "emailExists exampleEnv = False"
  "findAllRevisions exampleEnv = (\<lambda>i. [])"
  by (simp_all add: exampleEnv_def)

lemma historyEnv_fields:
  "subdomain historyEnv = Some ''texas''"
  "cannotScheduleAPostBeforeInMinutes historyEnv = 2"
  "now_schedule historyEnv = 1000000"
  "now_published historyEnv = 1000001"
  "now_revision_prev historyEnv = 1000002"
  "now_revision historyEnv = 1000003"
  "parseMoment historyEnv = (\<lambda>v. None)"
  "dateToString historyEnv = (\<lambda>d. ''Invalid Date'')"
  "toLocaleLowerCase historyEnv = (\<lambda>s. s)"
  "untitled historyEnv = ''(Untitled)''"
  "blankDocument historyEnv = ''{}''"
  "hasDateChanged historyEnv = (\<lambda>m k beforeWrite. hasChanged m k)"
  "contextUser historyEnv = (\<lambda>opts. Str ''actor1'')"
  "generateSlug historyEnv = (\<lambda>v imp. case v of Str s \<Rightarrow> ''slug-of-'' @ s | _ \<Rightarrow> ''untitled'')"
  "filterOptions historyEnv = (\<lambda>opts methodName. opts)"
  "base_onSaving historyEnv = (\<lambda>m. m)"
  "base_onUpdated historyEnv = (\<lambda>m. m)"
  "base_add historyEnv = (\<lambda>data opts. Inr (fetched data))"
  "findOne historyEnv = (\<lambda>i. None)"
  "urlUtils historyEnv = (\<lambda>transformMethod v transformOptions. v)"
  "populateImageSizes historyEnv = (\<lambda>v. v)"
  "render historyEnv = (\<lambda>v. case v of
       Str s \<Rightarrow> if s = ''not json'' then None else Some (Str (''<p>'' @ s @ ''</p>''))
     | _ \<Rightarrow> None)"
  "htmlToText historyEnv = (\<lambda>v. v)"
  "emailExists historyEnv = False"
  "findAllRevisions historyEnv = (\<lambda>i. storedRevisions)"
  by (simp_all add: historyEnv_def exampleEnv_def)

lemma exampleOptions_fields:
  "method' exampleOptions = ''update''"
  "importing exampleOptions = False"
  "migrating exampleOptions = False"
  "context' exampleOptions = None"
  "force_rerender exampleOptions = False"
  "send_email_when_published exampleOptions = False"
  by (simp_all add: exampleOptions_def)

lemmas example_defs =
  exampleEnv_fields historyEnv_fields exampleOptions_fields
  draftAttrs_def publishedAttrs_def noAttributes_def

lemmas onSaving_defs =
  onSaving_def beforeBaseHook_def hookResult_def afterBaseHook_def sequence_ops_def
  disallowPublishedToScheduled_def setCommentId_def checkScheduled_def dedupeTags_def
  attachPostsMeta_def revertGeneratedFields_def revertField_def generatedFields_def
  defaultMobiledoc_def transformUrls_def transformUrl_def urlTransformMap_def
  forceRerender_def renderHtml_def updatePlaintext_def newPlaintext_def sanitizeTitle_def
  setPublishedAt_def setPublishedBy_def setSendEmailWhenPublished_def
  ensureSendEmailWhenPublishedIsUnchanged_def updateSlug_def titleDrivesSlug_def
  updateSlugFromTitle_def updateSlugFromField_def updateRevisions_def revisionEntry_def
  toJSON_id_def MOBILEDOC_REVISIONS_COUNT_def
  newTitle_def newStatus_def olderStatus_def prevTitle_def prevSlug_def publishedAt_def
  publishedAtHasChanged_def isBeforeLeadTime_def notInternal_def hasChanged_def
  js_or_def lodash_toString_def trim_def is_space_def rejection_def

section \<open>The claims\<close>

text \<open>
  C1. A save that asks for status 'scheduled' on a post whose previous status is
  'published' is rejected with a ValidationError, whatever else the payload and the
  options hold, and the model is rejected as it came in: no attribute has been written.
\<close>

theorem published_to_scheduled_rejected:
  assumes "get this ''status'' = Str ''scheduled''"
    and "previous this ''status'' = Str ''published''"
  shows "onSaving E this opts =
           Inl (ValidationError ''errors.models.post.isAlreadyPublished'', this)"
  using assms
  by (simp add: onSaving_def beforeBaseHook_def disallowPublishedToScheduled_def
      newStatus_def olderStatus_def)

theorem published_to_scheduled_rejected_witness:
  "get (set_attr (fetched publishedAttrs) ''status'' (Str ''scheduled'')) ''status''
     = Str ''scheduled''
   \<and> previous (set_attr (fetched publishedAttrs) ''status'' (Str ''scheduled'')) ''status''
     = Str ''published''
   \<and> onSaving exampleEnv (set_attr (fetched publishedAttrs) ''status'' (Str ''scheduled''))
       exampleOptions
     = Inl (ValidationError ''errors.models.post.isAlreadyPublished'',
            set_attr (fetched publishedAttrs) ''status'' (Str ''scheduled''))"
proof -
  let ?m = "set_attr (fetched publishedAttrs) ''status'' (Str ''scheduled'')"
  have new: "get ?m ''status'' = Str ''scheduled''"
    by simp
  have old: "previous ?m ''status'' = Str ''published''"
    by (simp add: publishedAttrs_def)
  from published_to_scheduled_rejected [OF new old] new old show ?thesis
    by blast
qed













text \<open>
  C3. Take a save with requested status 'published' that resolves, and let \<open>b\<close> be the
  model as the inherited hook hands it back (where the code asks whether the status
  changed). If the save came in without published_at (falsy), the saved published_at is
  the clock's reading at that moment. If the status changed, published_by is the context
  user as a string, unless the save is an import and published_by is already present,
  which then stays. If the status did not change and the save is not an import, a changed
  published_by is set back from its previous value: to that value's string, or to null
  when it is absent; so published_by ends as its previous value whenever that is null or
  a non-empty string, as the stored column has it.
\<close>

theorem published_at_and_by:
  assumes "onSaving E this opts = Inr m'"
    and "get this ''status'' = Str ''published''"
    and "b = hookResult E opts this"
  shows "(\<not> truthy (get this ''published_at'') \<longrightarrow>
            get m' ''published_at'' = Date (Some (now_published E)))
       \<and> (hasChanged b ''status'' \<and> \<not> (importing opts \<and> truthy (get b ''published_by'')) \<longrightarrow>
            get m' ''published_by'' = Str (js_String (dateToString E) (contextUser E opts)))
       \<and> (hasChanged b ''status'' \<and> importing opts \<and> truthy (get b ''published_by'') \<longrightarrow>
            get m' ''published_by'' = get b ''published_by'')
       \<and> (\<not> hasChanged b ''status'' \<and> \<not> importing opts \<and> hasChanged b ''published_by'' \<longrightarrow>
            get m' ''published_by'' =
              (if truthy (previous b ''published_by'')
               then Str (js_String (dateToString E) (previous b ''published_by''))
               else Null))
       \<and> (\<not> hasChanged b ''status'' \<and> \<not> importing opts
            \<and> (previous b ''published_by'' = Null
                \<or> (\<exists>s. s \<noteq> [] \<and> previous b ''published_by'' = Str s)) \<longrightarrow>
            get m' ''published_by'' = previous b ''published_by'')"
proof -
  from assms(1) obtain q where
    after: "afterBaseHook E opts this (hookResult E opts this) = Inr q"
    and m': "m' = sequence_ops E opts this q"
    by (rule onSaving_Inr)
  from after obtain r where
    r: "renderHtml E opts
          (forceRerender E opts
            (transformUrls E (defaultMobiledoc E (revertGeneratedFields opts b)))) = Inr r"
    and q: "q = setSendEmailWhenPublished opts this
                  (setPublishedBy E opts this
                    (setPublishedAt E this (sanitizeTitle E opts (updatePlaintext E r))))"
    unfolding assms(3) by (rule afterBaseHook_Inr)
  define y where "y = setPublishedAt E this (sanitizeTitle E opts (updatePlaintext E r))"
  have status: "get y ''status'' = get b ''status''"
    and by_now: "get y ''published_by'' = get b ''published_by''"
    by (simp_all add: y_def rendered_get [OF r] url_keys)
  have prev: "previous y k = previous b k" for k
    by (simp add: y_def rendered_previous [OF r])
  have changed: "hasChanged y ''status'' = hasChanged b ''status''"
    "hasChanged y ''published_by'' = hasChanged b ''published_by''"
    by (simp_all add: hasChanged_def status by_now prev)
  have at: "get m' ''published_at'' = get y ''published_at''"
    by (simp add: m' q y_def sequence_ops_get)
  have by_end: "get m' ''published_by'' = get (setPublishedBy E opts this y) ''published_by''"
    by (simp add: m' q y_def sequence_ops_get)
  have c1: "\<not> truthy (get this ''published_at'') \<longrightarrow>
              get m' ''published_at'' = Date (Some (now_published E))"
    using assms(2) by (simp add: at y_def setPublishedAt_def newStatus_def publishedAt_def)
  have c2: "hasChanged b ''status'' \<and> \<not> (importing opts \<and> truthy (get b ''published_by'')) \<longrightarrow>
              get m' ''published_by'' = Str (js_String (dateToString E) (contextUser E opts))"
    using assms(2) by (auto simp: by_end setPublishedBy_def newStatus_def changed by_now)
  have c3: "hasChanged b ''status'' \<and> importing opts \<and> truthy (get b ''published_by'') \<longrightarrow>
              get m' ''published_by'' = get b ''published_by''"
    using assms(2) by (simp add: by_end setPublishedBy_def newStatus_def changed by_now)
  have c4: "\<not> hasChanged b ''status'' \<and> \<not> importing opts \<and> hasChanged b ''published_by'' \<longrightarrow>
              get m' ''published_by'' =
                (if truthy (previous b ''published_by'')
                 then Str (js_String (dateToString E) (previous b ''published_by''))
                 else Null)"
    by (simp add: by_end setPublishedBy_def changed prev)
  have c5: "\<not> hasChanged b ''status'' \<and> \<not> importing opts
              \<and> (previous b ''published_by'' = Null
                  \<or> (\<exists>s. s \<noteq> [] \<and> previous b ''published_by'' = Str s)) \<longrightarrow>
              get m' ''published_by'' = previous b ''published_by''"
  proof (cases "hasChanged b ''published_by''")
    case True
    with c4 show ?thesis by auto
  next
    case False
    then have "get b ''published_by'' = previous b ''published_by''"
      by (simp add: hasChanged_def)
    with False show ?thesis
      by (simp add: by_end setPublishedBy_def changed by_now)
  qed
  from c1 c2 c3 c4 c5 show ?thesis
    by blast
qed

theorem published_at_and_by_witness:
  "get (set_attr (fetched draftAttrs) ''status'' (Str ''published'')) ''status''
     = Str ''published''
   \<and> \<not> truthy (get (set_attr (fetched draftAttrs) ''status'' (Str ''published''))
                  ''published_at'')
   \<and> hasChanged
         (hookResult exampleEnv exampleOptions
            (set_attr (fetched draftAttrs) ''status'' (Str ''published'')))
         ''status''
   \<and> \<not> importing exampleOptions
   \<and> (case onSaving exampleEnv (set_attr (fetched draftAttrs) ''status'' (Str ''published''))
              exampleOptions of
         Inl r \<Rightarrow> False
       | Inr m' \<Rightarrow>
           get m' ''published_at'' = Date (Some 1000001)
           \<and> get m' ''published_by'' = Str ''actor1'')
   \<and> get (set_attr (fetched publishedAttrs) ''published_by'' (Str ''intruder'')) ''status''
       = Str ''published''
   \<and> \<not> hasChanged
           (hookResult exampleEnv exampleOptions
              (set_attr (fetched publishedAttrs) ''published_by'' (Str ''intruder'')))
           ''status''
   \<and> previous
         (hookResult exampleEnv exampleOptions
            (set_attr (fetched publishedAttrs) ''published_by'' (Str ''intruder'')))
         ''published_by'' = Str ''actor0''
   \<and> (case onSaving exampleEnv
              (set_attr (fetched publishedAttrs) ''published_by'' (Str ''intruder''))
              exampleOptions of
         Inl r \<Rightarrow> False
       | Inr m' \<Rightarrow> get m' ''published_by'' = Str ''actor0'')"
proof -
  let ?publish = "set_attr (fetched draftAttrs) ''status'' (Str ''published'')"
  let ?intrude = "set_attr (fetched publishedAttrs) ''published_by'' (Str ''intruder'')"
  have "rejection (onSaving exampleEnv ?publish exampleOptions) = None"
    by (simp add: onSaving_defs example_defs)
  then obtain m1 where saved1: "onSaving exampleEnv ?publish exampleOptions = Inr m1"
    by (cases "onSaving exampleEnv ?publish exampleOptions") (auto simp: rejection_def)
  have "rejection (onSaving exampleEnv ?intrude exampleOptions) = None"
    by (simp add: onSaving_defs example_defs)
  then obtain m2 where saved2: "onSaving exampleEnv ?intrude exampleOptions = Inr m2"
    by (cases "onSaving exampleEnv ?intrude exampleOptions") (auto simp: rejection_def)
  have hook1: "hookResult exampleEnv exampleOptions ?publish = ?publish"
    and hook2: "hookResult exampleEnv exampleOptions ?intrude = ?intrude"
    by (simp_all add: onSaving_defs example_defs)
  have status1: "get ?publish ''status'' = Str ''published''"
    and status2: "get ?intrude ''status'' = Str ''published''"
    by (simp_all add: example_defs)
  have h1: "\<not> truthy (get ?publish ''published_at'')"
    "hasChanged ?publish ''status''"
    "\<not> importing exampleOptions"
    "\<not> truthy (get ?publish ''published_by'')"
    by (simp_all add: hasChanged_def example_defs)
  have h2: "\<not> hasChanged ?intrude ''status''"
    "previous ?intrude ''published_by'' = Str ''actor0''"
    by (simp_all add: hasChanged_def example_defs)
  have actor: "js_String (dateToString exampleEnv) (contextUser exampleEnv exampleOptions)
                 = ''actor1''"
    "now_published exampleEnv = 1000001"
    by (simp_all add: exampleEnv_fields)
  from published_at_and_by [OF saved1 status1 refl] h1 actor
  have r1: "get m1 ''published_at'' = Date (Some 1000001)
            \<and> get m1 ''published_by'' = Str ''actor1''"
    by (simp add: hook1)
  from published_at_and_by [OF saved2 status2 refl] h1(3) h2
  have r2: "get m2 ''published_by'' = Str ''actor0''"
    by (simp add: hook2)
  from saved1 saved2 status1 status2 h1 h2 r1 r2 show ?thesis
    by (simp add: hook1 hook2)
qed

text \<open>
  C4. A save that resolves with a changed body (the saved mobiledoc differs from the
  previous one), outside an import, a migration and an insert, for a post with no stored
  revision, sets the revision log to exactly two entries: the previous body with the
  clock's reading minus one, then the saved body with the clock's reading. The clock is
  read once for each entry; as it does not run backwards, the sequence number of the
  first entry is below that of the second.
\<close>

theorem first_revision_seeds_two:
  assumes "onSaving E this opts = Inr m'"
    and "hasChanged m' ''mobiledoc''"
    and "\<not> importing opts" and "\<not> migrating opts" and "method' opts \<noteq> ''insert''"
    and "findAllRevisions E (model_id m') = []"
  shows "get m' ''mobiledoc_revisions'' =
           Arr [revisionEntry m' (previous m' ''mobiledoc'') (now_revision_prev E - 1),
                revisionEntry m' (get m' ''mobiledoc'') (now_revision E)]
       \<and> (now_revision_prev E \<le> now_revision E \<longrightarrow>
            created_at_ts (revisionEntry m' (previous m' ''mobiledoc'') (now_revision_prev E - 1))
              < created_at_ts (revisionEntry m' (get m' ''mobiledoc'') (now_revision E)))"
proof -
  from assms(1-4) obtain s where m': "m' = updateRevisions E opts s"
    and s: "model_id s = model_id m'" "get s ''mobiledoc'' = get m' ''mobiledoc''"
      "previous s ''mobiledoc'' = previous m' ''mobiledoc''"
    by (rule revisions_written)
  have "get (updateRevisions E opts s) ''mobiledoc_revisions'' =
          Arr [revisionEntry s (previous s ''mobiledoc'') (now_revision_prev E - 1),
               revisionEntry s (get s ''mobiledoc'') (now_revision E)]"
    using assms(5,6) by (simp add: updateRevisions_def s(1))
  then have "get m' ''mobiledoc_revisions'' =
          Arr [revisionEntry m' (previous m' ''mobiledoc'') (now_revision_prev E - 1),
               revisionEntry m' (get m' ''mobiledoc'') (now_revision E)]"
    by (simp add: m' [symmetric] s(2,3) revisionEntry_model_id [OF s(1)])
  moreover have "created_at_ts (revisionEntry m' body ts) = ts" for body ts
    by (simp add: created_at_ts_def revisionEntry_def lookup_def)
  ultimately show ?thesis
    by simp
qed

theorem first_revision_seeds_two_witness:
  "\<not> importing exampleOptions \<and> \<not> migrating exampleOptions
   \<and> method' exampleOptions \<noteq> ''insert''
   \<and> now_revision_prev exampleEnv \<le> now_revision exampleEnv
   \<and> (case onSaving exampleEnv (set_attr (fetched draftAttrs) ''mobiledoc'' (Str ''new''))
              exampleOptions of
         Inl r \<Rightarrow> False
       | Inr m' \<Rightarrow>
           hasChanged m' ''mobiledoc''
           \<and> findAllRevisions exampleEnv (model_id m') = []
           \<and> get m' ''mobiledoc_revisions'' =
               Arr [Obj [(''post_id'', Str ''p1''), (''mobiledoc'', Str ''old''),
                         (''created_at_ts'', Num 1000001)],
                    Obj [(''post_id'', Str ''p1''), (''mobiledoc'', Str ''new''),
                         (''created_at_ts'', Num 1000003)]])"
proof -
  let ?edit = "set_attr (fetched draftAttrs) ''mobiledoc'' (Str ''new'')"
  have "case onSaving exampleEnv ?edit exampleOptions of
          Inl r \<Rightarrow> False
        | Inr m' \<Rightarrow> get m' ''mobiledoc'' = Str ''new'' \<and> previous m' ''mobiledoc'' = Str ''old''
                    \<and> model_id m' = Str ''p1''"
    by (simp add: onSaving_defs example_defs)
  then obtain m' where saved: "onSaving exampleEnv ?edit exampleOptions = Inr m'"
    and m': "get m' ''mobiledoc'' = Str ''new''" "previous m' ''mobiledoc'' = Str ''old''"
      "model_id m' = Str ''p1''"
    by (cases "onSaving exampleEnv ?edit exampleOptions") auto
  have opts: "\<not> importing exampleOptions" "\<not> migrating exampleOptions"
    "method' exampleOptions \<noteq> ''insert''"
    by (simp_all add: exampleOptions_fields)
  have changed: "hasChanged m' ''mobiledoc''"
    by (simp add: hasChanged_def m')
  have none: "findAllRevisions exampleEnv (model_id m') = []"
    by (simp add: exampleEnv_fields)
  have clock: "now_revision_prev exampleEnv \<le> now_revision exampleEnv"
    by (simp add: exampleEnv_fields)
  from first_revision_seeds_two [OF saved changed opts none]
  have "get m' ''mobiledoc_revisions'' =
          Arr [Obj [(''post_id'', Str ''p1''), (''mobiledoc'', Str ''old''),
                    (''created_at_ts'', Num 1000001)],
               Obj [(''post_id'', Str ''p1''), (''mobiledoc'', Str ''new''),
                    (''created_at_ts'', Num 1000003)]]"
    by (simp add: revisionEntry_def m' exampleEnv_fields)
  with saved opts changed none clock show ?thesis
    by simp
qed

text \<open>
  C5. A save that resolves with a changed body, outside an import and a migration, for a
  post with at least one stored revision, sets the revision log to the first
  \<open>MOBILEDOC_REVISIONS_COUNT - 1 = 9\<close> stored revisions, in the order the storage lists
  them, followed by the saved body as the last entry. The log is never longer than 10;
  and when the storage lists the revisions newest first, every revision left out is at
  most as new as every revision kept.
\<close>

theorem revisions_bounded:
  assumes "onSaving E this opts = Inr m'"
    and "hasChanged m' ''mobiledoc''"
    and "\<not> importing opts" and "\<not> migrating opts"
    and "revisions = findAllRevisions E (model_id m')"
    and "revisions \<noteq> []"
  shows "get m' ''mobiledoc_revisions'' =
           Arr (take (MOBILEDOC_REVISIONS_COUNT - 1) (map toJSON_id revisions)
                @ [revisionEntry m' (get m' ''mobiledoc'') (now_revision E)])
       \<and> length (take (MOBILEDOC_REVISIONS_COUNT - 1) (map toJSON_id revisions)
                 @ [revisionEntry m' (get m' ''mobiledoc'') (now_revision E)])
           \<le> MOBILEDOC_REVISIONS_COUNT
       \<and> (sorted_wrt (\<lambda>newer older. created_at_ts older \<le> created_at_ts newer) revisions \<longrightarrow>
            (\<forall>kept \<in> set (take (MOBILEDOC_REVISIONS_COUNT - 1) revisions).
               \<forall>evicted \<in> set (drop (MOBILEDOC_REVISIONS_COUNT - 1) revisions).
                 created_at_ts evicted \<le> created_at_ts kept))"
proof -
  from assms(1-4) obtain s where m': "m' = updateRevisions E opts s"
    and s: "model_id s = model_id m'" "get s ''mobiledoc'' = get m' ''mobiledoc''"
    by (rule revisions_written)
  have "get (updateRevisions E opts s) ''mobiledoc_revisions'' =
          Arr (take (MOBILEDOC_REVISIONS_COUNT - 1) (map toJSON_id revisions)
               @ [revisionEntry s (get s ''mobiledoc'') (now_revision E)])"
    using assms(5,6) by (simp add: updateRevisions_def s(1))
  then have log: "get m' ''mobiledoc_revisions'' =
          Arr (take (MOBILEDOC_REVISIONS_COUNT - 1) (map toJSON_id revisions)
               @ [revisionEntry m' (get m' ''mobiledoc'') (now_revision E)])"
    by (simp add: m' [symmetric] s(2) revisionEntry_model_id [OF s(1)])
  have bound: "length (take (MOBILEDOC_REVISIONS_COUNT - 1) (map toJSON_id revisions)
                 @ [revisionEntry m' (get m' ''mobiledoc'') (now_revision E)])
                 \<le> MOBILEDOC_REVISIONS_COUNT"
    by (simp add: MOBILEDOC_REVISIONS_COUNT_def)
  have fifo: "\<forall>kept \<in> set (take n revisions). \<forall>evicted \<in> set (drop n revisions).
                created_at_ts evicted \<le> created_at_ts kept"
    if "sorted_wrt (\<lambda>newer older. created_at_ts older \<le> created_at_ts newer) revisions" for n
  proof -
    from that have "sorted_wrt (\<lambda>newer older. created_at_ts older \<le> created_at_ts newer)
                      (take n revisions @ drop n revisions)"
      by simp
    then show ?thesis
      unfolding sorted_wrt_append by blast
  qed
  from log bound fifo show ?thesis
    by blast
qed

theorem revisions_bounded_witness:
  "\<not> importing exampleOptions \<and> \<not> migrating exampleOptions
   \<and> storedRevisions \<noteq> []
   \<and> sorted_wrt (\<lambda>newer older. created_at_ts older \<le> created_at_ts newer) storedRevisions
   \<and> (case onSaving historyEnv (set_attr (fetched draftAttrs) ''mobiledoc'' (Str ''new''))
              exampleOptions of
         Inl r \<Rightarrow> False
       | Inr m' \<Rightarrow>
           hasChanged m' ''mobiledoc''
           \<and> storedRevisions = findAllRevisions historyEnv (model_id m')
           \<and> get m' ''mobiledoc_revisions'' =
               Arr [Obj [(''id'', Num 1)], Obj [(''id'', Num 2)], Obj [(''id'', Num 3)],
                    Obj [(''id'', Num 4)], Obj [(''id'', Num 5)], Obj [(''id'', Num 6)],
                    Obj [(''id'', Num 7)], Obj [(''id'', Num 8)], Obj [(''id'', Num 9)],
                    Obj [(''post_id'', Str ''p1''), (''mobiledoc'', Str ''new''),
                         (''created_at_ts'', Num 1000003)]])
   \<and> created_at_ts (storedRevision 11) \<le> created_at_ts (storedRevision 1)"
proof -
  let ?edit = "set_attr (fetched draftAttrs) ''mobiledoc'' (Str ''new'')"
  have some: "storedRevisions \<noteq> []"
    by (simp add: storedRevisions_def)
  have "case onSaving historyEnv ?edit exampleOptions of
          Inl r \<Rightarrow> False
        | Inr m' \<Rightarrow> get m' ''mobiledoc'' = Str ''new'' \<and> previous m' ''mobiledoc'' = Str ''old''
                    \<and> model_id m' = Str ''p1''"
    by (simp add: onSaving_defs example_defs some Let_def)
  then obtain m' where saved: "onSaving historyEnv ?edit exampleOptions = Inr m'"
    and m': "get m' ''mobiledoc'' = Str ''new''" "previous m' ''mobiledoc'' = Str ''old''"
      "model_id m' = Str ''p1''"
    by (cases "onSaving historyEnv ?edit exampleOptions") auto
  have opts: "\<not> importing exampleOptions" "\<not> migrating exampleOptions"
    by (simp_all add: exampleOptions_fields)
  have changed: "hasChanged m' ''mobiledoc''"
    by (simp add: hasChanged_def m')
  have stored: "storedRevisions = findAllRevisions historyEnv (model_id m')"
    by (simp add: historyEnv_fields)
  have newest_first:
    "sorted_wrt (\<lambda>newer older. created_at_ts older \<le> created_at_ts newer) storedRevisions"
    by (simp add: storedRevisions_def storedRevision_def created_at_ts_def lookup_def)
  have kept: "storedRevision 1 \<in> set (take (MOBILEDOC_REVISIONS_COUNT - 1) storedRevisions)"
    and evicted:
      "storedRevision 11 \<in> set (drop (MOBILEDOC_REVISIONS_COUNT - 1) storedRevisions)"
    by (simp_all add: storedRevisions_def MOBILEDOC_REVISIONS_COUNT_def)
  note bounded = revisions_bounded [OF saved changed opts stored some]
  from bounded have "get m' ''mobiledoc_revisions'' =
      Arr [Obj [(''id'', Num 1)], Obj [(''id'', Num 2)], Obj [(''id'', Num 3)],
           Obj [(''id'', Num 4)], Obj [(''id'', Num 5)], Obj [(''id'', Num 6)],
           Obj [(''id'', Num 7)], Obj [(''id'', Num 8)], Obj [(''id'', Num 9)],
           Obj [(''post_id'', Str ''p1''), (''mobiledoc'', Str ''new''),
                (''created_at_ts'', Num 1000003)]]"
    by (simp add: revisionEntry_def m' storedRevisions_def storedRevision_def toJSON_id_def
        lookup_def MOBILEDOC_REVISIONS_COUNT_def historyEnv_fields)
  moreover from bounded newest_first kept evicted
  have "created_at_ts (storedRevision 11) \<le> created_at_ts (storedRevision 1)"
    by blast
  ultimately show ?thesis
    using saved opts changed stored some newest_first by simp
qed

text \<open>
  C6. Take a save that resolves, and let \<open>b\<close> be the model as the inherited hook hands it
  back. When the previous title is defined and differs from the new one, the status is
  'draft' and published_at is absent (falsy): the saved slug is the slug generated from
  the saved title if the slug generated from the previous title is exactly the previous
  slug, and otherwise the slug is left as it is. In every other case, a slug that has
  changed or is missing is replaced by the slug generated from it (from the title when it
  is missing), and a slug that is present and unchanged is left as it is.
\<close>

theorem slug_policy:
  assumes "onSaving E this opts = Inr m'"
    and "b = hookResult E opts this"
  shows "titleDrivesSlug this =
           (previous this ''title'' \<noteq> Undefined
            \<and> \<not> strict_eq (get this ''title'') (previous this ''title'')
            \<and> get this ''status'' = Str ''draft''
            \<and> \<not> truthy (get this ''published_at''))
       \<and> (titleDrivesSlug this \<longrightarrow>
            get m' ''slug'' =
              (if Str (generateSlug E (previous this ''title'') (importing opts))
                    = previous this ''slug''
               then Str (generateSlug E (get m' ''title'') (importing opts))
               else get b ''slug''))
       \<and> (\<not> titleDrivesSlug this \<longrightarrow>
            get m' ''slug'' =
              (if hasChanged b ''slug'' \<or> \<not> truthy (get b ''slug'')
               then Str (generateSlug E (js_or (get b ''slug'') (get m' ''title''))
                           (importing opts))
               else get b ''slug''))"
proof -
  from assms(1) obtain q where
    after: "afterBaseHook E opts this b = Inr q"
    and m': "m' = sequence_ops E opts this q"
    unfolding assms(2) by (rule onSaving_Inr)
  have slug: "get q ''slug'' = get b ''slug''"
    by (rule afterBaseHook_get [OF after]) (simp_all add: url_keys)
  have changed: "hasChanged q ''slug'' = hasChanged b ''slug''"
    by (simp add: hasChanged_def slug afterBaseHook_previous [OF after])
  have title: "get m' ''title'' = get q ''title''"
    by (simp add: m' sequence_ops_get)
  have saved: "get m' ''slug'' = get (updateSlug E opts this q) ''slug''"
    by (simp add: m' sequence_ops_slug)
  have c0: "titleDrivesSlug this =
           (previous this ''title'' \<noteq> Undefined
            \<and> \<not> strict_eq (get this ''title'') (previous this ''title'')
            \<and> get this ''status'' = Str ''draft''
            \<and> \<not> truthy (get this ''published_at''))"
    by (simp add: titleDrivesSlug_def prevTitle_def newTitle_def newStatus_def publishedAt_def)
  have c1: "titleDrivesSlug this \<longrightarrow>
            get m' ''slug'' =
              (if Str (generateSlug E (previous this ''title'') (importing opts))
                    = previous this ''slug''
               then Str (generateSlug E (get m' ''title'') (importing opts))
               else get b ''slug'')"
    by (auto simp: saved updateSlug_def updateSlugFromTitle_def prevTitle_def prevSlug_def
        title slug)
  have c2: "\<not> titleDrivesSlug this \<longrightarrow>
            get m' ''slug'' =
              (if hasChanged b ''slug'' \<or> \<not> truthy (get b ''slug'')
               then Str (generateSlug E (js_or (get b ''slug'') (get m' ''title''))
                           (importing opts))
               else get b ''slug'')"
    by (simp add: saved updateSlug_def updateSlugFromField_def title slug changed)
  from c0 c1 c2 show ?thesis
    by blast
qed

theorem slug_policy_witness:
  "titleDrivesSlug (set_attr (fetched draftAttrs) ''title'' (Str ''World''))
   \<and> Str (generateSlug exampleEnv
             (previous (set_attr (fetched draftAttrs) ''title'' (Str ''World'')) ''title'')
             (importing exampleOptions))
       = previous (set_attr (fetched draftAttrs) ''title'' (Str ''World'')) ''slug''
   \<and> (case onSaving exampleEnv (set_attr (fetched draftAttrs) ''title'' (Str ''World''))
              exampleOptions of
         Inl r \<Rightarrow> False
       | Inr m' \<Rightarrow> get m' ''slug'' = Str ''slug-of-World'')
   \<and> titleDrivesSlug
         (set_attr (fetched (draftAttrs(''slug'' := Str ''my-own''))) ''title'' (Str ''World''))
   \<and> (case onSaving exampleEnv
              (set_attr (fetched (draftAttrs(''slug'' := Str ''my-own''))) ''title''
                 (Str ''World''))
              exampleOptions of
         Inl r \<Rightarrow> False
       | Inr m' \<Rightarrow> get m' ''slug'' = Str ''my-own'')
   \<and> \<not> titleDrivesSlug (set_attr (fetched publishedAttrs) ''slug'' (Str ''Fresh''))
   \<and> (case onSaving exampleEnv (set_attr (fetched publishedAttrs) ''slug'' (Str ''Fresh''))
              exampleOptions of
         Inl r \<Rightarrow> False
       | Inr m' \<Rightarrow> get m' ''slug'' = Str ''slug-of-Fresh'')"
proof -
  let ?auto = "set_attr (fetched draftAttrs) ''title'' (Str ''World'')"
  let ?custom = "set_attr (fetched (draftAttrs(''slug'' := Str ''my-own''))) ''title''
                   (Str ''World'')"
  let ?other = "set_attr (fetched publishedAttrs) ''slug'' (Str ''Fresh'')"
  have "case onSaving exampleEnv ?auto exampleOptions of
          Inl r \<Rightarrow> False | Inr m' \<Rightarrow> get m' ''title'' = Str ''World''"
    by (simp add: onSaving_defs example_defs)
  then obtain m1 where saved1: "onSaving exampleEnv ?auto exampleOptions = Inr m1"
    and title1: "get m1 ''title'' = Str ''World''"
    by (cases "onSaving exampleEnv ?auto exampleOptions") auto
  have "rejection (onSaving exampleEnv ?custom exampleOptions) = None"
    by (simp add: onSaving_defs example_defs)
  then obtain m2 where saved2: "onSaving exampleEnv ?custom exampleOptions = Inr m2"
    by (cases "onSaving exampleEnv ?custom exampleOptions") (auto simp: rejection_def)
  have "case onSaving exampleEnv ?other exampleOptions of
          Inl r \<Rightarrow> False | Inr m' \<Rightarrow> get m' ''title'' = Str ''Hello''"
    by (simp add: onSaving_defs example_defs)
  then obtain m3 where saved3: "onSaving exampleEnv ?other exampleOptions = Inr m3"
    and title3: "get m3 ''title'' = Str ''Hello''"
    by (cases "onSaving exampleEnv ?other exampleOptions") auto
  have hook: "hookResult exampleEnv exampleOptions ?custom = ?custom"
    "hookResult exampleEnv exampleOptions ?other = ?other"
    by (simp_all add: onSaving_defs example_defs)
  have drives: "titleDrivesSlug ?auto" "titleDrivesSlug ?custom" "\<not> titleDrivesSlug ?other"
    by (simp_all add: titleDrivesSlug_def prevTitle_def newTitle_def newStatus_def
        publishedAt_def example_defs)
  have gen: "generateSlug exampleEnv (Str s) imp = ''slug-of-'' @ s" for s imp
    by (simp add: exampleEnv_fields)
  have derived: "Str (generateSlug exampleEnv (previous ?auto ''title'')
                       (importing exampleOptions)) = previous ?auto ''slug''"
    and custom: "Str (generateSlug exampleEnv (previous ?custom ''title'')
                       (importing exampleOptions)) \<noteq> previous ?custom ''slug''"
    by (simp_all add: example_defs)
  have slugs: "get ?custom ''slug'' = Str ''my-own''" "get ?other ''slug'' = Str ''Fresh''"
    "hasChanged ?other ''slug''"
    by (simp_all add: hasChanged_def example_defs)
  from slug_policy [OF saved1 refl] drives(1) derived
  have r1: "get m1 ''slug'' = Str ''slug-of-World''"
    by (simp add: title1 gen)
  from slug_policy [OF saved2 refl] drives(2) custom
  have r2: "get m2 ''slug'' = Str ''my-own''"
    by (simp add: hook slugs)
  from slug_policy [OF saved3 refl] drives(3)
  have r3: "get m3 ''slug'' = Str ''slug-of-Fresh''"
    by (simp add: hook slugs js_or_def gen)
  from saved1 saved2 saved3 drives derived r1 r2 r3 show ?thesis
    by simp
qed

lemma postEvents_append [simp]: "postEvents (xs @ ys) = postEvents xs @ postEvents ys"
  by (simp add: postEvents_def)

lemma postEvents_attached [simp]: "postEvents (handleStatusForAttachedModels m) = []"
  by (simp add: postEvents_def handleStatusForAttachedModels_def filter_empty_conv)

lemma postEvents_emitChange [simp]:
  "postEvents (emitChange m ev p # evs) = emitChange m ev p # postEvents evs"
  by (simp add: postEvents_def emitChange_def)

lemma postEvents_Nil [simp]: "postEvents [] = []"
  by (simp add: postEvents_def)

lemma eventName_emitChange [simp]: "eventName (emitChange m ev p) = ev"
  by (simp add: emitChange_def)

lemma eventName_attached:
  "e \<in> set (handleStatusForAttachedModels m) \<Longrightarrow> eventName e = ''attached''"
  by (auto simp: handleStatusForAttachedModels_def)

lemma type_change_post_events:
  assumes "resourceTypeChanging (base_onUpdated E model0)"
  shows "postEvents (onUpdated E model0) =
           (if wasPublished (base_onUpdated E model0)
            then [PostEvent (previous (base_onUpdated E model0) ''type'') ''unpublished'']
            else [])
           @ (if wasScheduled (base_onUpdated E model0)
              then [PostEvent (previous (base_onUpdated E model0) ''type'') ''unscheduled'']
              else [])
           @ [PostEvent (previous (base_onUpdated E model0) ''type'') ''deleted'',
              PostEvent (get (base_onUpdated E model0) ''type'') ''added'']
           @ (if isPublished (base_onUpdated E model0)
              then [PostEvent (get (base_onUpdated E model0) ''type'') ''published'']
              else [])
           @ (if isScheduled (base_onUpdated E model0)
              then [PostEvent (get (base_onUpdated E model0) ''type'') ''scheduled'']
              else [])"
  using assms by (simp add: onUpdated_def Let_def) (simp add: emitChange_def)

lemma type_change_no_edited:
  assumes "resourceTypeChanging (base_onUpdated E model0)"
  shows "''edited'' \<notin> set (map eventName (onUpdated E model0))"
  using assms by (auto simp: onUpdated_def Let_def dest: eventName_attached)

lemma same_type_edited_last:
  assumes "\<not> resourceTypeChanging (base_onUpdated E model0)"
  shows "postEvents (onUpdated E model0) \<noteq> []
         \<and> last (postEvents (onUpdated E model0))
             = PostEvent (get (base_onUpdated E model0) ''type'') ''edited''"
  using assms by (simp add: onUpdated_def Let_def) (simp add: emitChange_def)

text \<open>
  C7. Let \<open>model\<close> be the model the inherited hook hands back. When its type differs from
  its previous type, the post's events are, in this order: \<open>unpublished\<close> if the previous
  status was 'published' and \<open>unscheduled\<close> if it was 'scheduled' (both named after the
  previous type), \<open>deleted\<close> (previous type), \<open>added\<close> (new type), then \<open>published\<close> or
  \<open>scheduled\<close> if that is the new status; no \<open>edited\<close> event is emitted at all. When the
  type does not change, the last event of the post is \<open>edited\<close>.
\<close>

theorem type_change_events:
  assumes "model = base_onUpdated E model0"
  shows "(resourceTypeChanging model \<longrightarrow>
            postEvents (onUpdated E model0) =
              (if wasPublished model then [PostEvent (previous model ''type'') ''unpublished'']
               else [])
              @ (if wasScheduled model then [PostEvent (previous model ''type'') ''unscheduled'']
                 else [])
              @ [PostEvent (previous model ''type'') ''deleted'',
                 PostEvent (get model ''type'') ''added'']
              @ (if isPublished model then [PostEvent (get model ''type'') ''published''] else [])
              @ (if isScheduled model then [PostEvent (get model ''type'') ''scheduled''] else [])
            \<and> ''edited'' \<notin> set (map eventName (onUpdated E model0)))
       \<and> (\<not> resourceTypeChanging model \<longrightarrow>
            postEvents (onUpdated E model0) \<noteq> []
            \<and> last (postEvents (onUpdated E model0)) = PostEvent (get model ''type'') ''edited'')"
  unfolding assms
  using type_change_post_events [of E model0] type_change_no_edited [of E model0]
    same_type_edited_last [of E model0]
  by blast

theorem type_change_events_witness:
  "set_attr (fetched publishedAttrs) ''type'' (Str ''page'')
     = base_onUpdated exampleEnv (set_attr (fetched publishedAttrs) ''type'' (Str ''page''))
   \<and> resourceTypeChanging (set_attr (fetched publishedAttrs) ''type'' (Str ''page''))
   \<and> postEvents (onUpdated exampleEnv (set_attr (fetched publishedAttrs) ''type'' (Str ''page'')))
       = [PostEvent (Str ''post'') ''unpublished'', PostEvent (Str ''post'') ''deleted'',
          PostEvent (Str ''page'') ''added'', PostEvent (Str ''page'') ''published'']
   \<and> ''edited'' \<notin> set (map eventName
         (onUpdated exampleEnv (set_attr (fetched publishedAttrs) ''type'' (Str ''page''))))
   \<and> fetched draftAttrs = base_onUpdated exampleEnv (fetched draftAttrs)
   \<and> \<not> resourceTypeChanging (fetched draftAttrs)
   \<and> last (postEvents (onUpdated exampleEnv (fetched draftAttrs)))
       = PostEvent (Str ''post'') ''edited''"
proof -
  let ?page = "set_attr (fetched publishedAttrs) ''type'' (Str ''page'')"
  have base: "?page = base_onUpdated exampleEnv ?page"
    "fetched draftAttrs = base_onUpdated exampleEnv (fetched draftAttrs)"
    by (simp_all add: exampleEnv_fields)
  have changing: "resourceTypeChanging ?page"
    by (simp add: resourceTypeChanging_def publishedAttrs_def draftAttrs_def)
  have same: "\<not> resourceTypeChanging (fetched draftAttrs)"
    by (simp add: resourceTypeChanging_def draftAttrs_def)
  have flags: "wasPublished ?page" "\<not> wasScheduled ?page" "isPublished ?page"
    "\<not> isScheduled ?page" "previous ?page ''type'' = Str ''post''"
    "get ?page ''type'' = Str ''page''" "get (fetched draftAttrs) ''type'' = Str ''post''"
    by (simp_all add: wasPublished_def wasScheduled_def isPublished_def isScheduled_def
        publishedAttrs_def draftAttrs_def)
  from type_change_events [OF base(1)] type_change_events [OF base(2)] base changing same flags
  show ?thesis
    by simp
qed

lemma contributor_edit:
  "some_role (user loaded) ''Contributor'' \<Longrightarrow>
   permissible postModel ''edit'' unsafeAttrs loaded hup hap =
     (if (\<not> truthy (unsafeAttrs ''status'') \<or> unsafeAttrs ''status'' = Str ''draft'')
         \<and> get postModel ''status'' = Str ''draft'' \<and> hap
      then Inr [''tags'']
      else Inl (NoPermissionError ''errors.models.post.notEnoughPermission''))"
  apply (simp add: permissible_def isChanging_def isDraft_def Let_def)
  apply (cases "unsafeAttrs ''status''")
         apply auto
  done

lemma contributor_add:
  "some_role (user loaded) ''Contributor'' \<Longrightarrow>
   permissible postModel ''add'' unsafeAttrs loaded hup hap =
     (if (\<not> truthy (unsafeAttrs ''status'') \<or> unsafeAttrs ''status'' = Str ''draft'') \<and> hap
      then Inr [''tags'']
      else Inl (NoPermissionError ''errors.models.post.notEnoughPermission''))"
  by (simp add: permissible_def isPublished_attrs_def Let_def)

lemma contributor_destroy:
  "some_role (user loaded) ''Contributor'' \<Longrightarrow>
   permissible postModel ''destroy'' unsafeAttrs loaded hup hap =
     (if get postModel ''status'' = Str ''draft'' \<and> hap
      then Inr [''tags'']
      else Inl (NoPermissionError ''errors.models.post.notEnoughPermission''))"
  by (simp add: permissible_def isDraft_def Let_def)

lemma contributor_any_action:
  "some_role (user loaded) ''Contributor'' \<Longrightarrow>
   permissible postModel action unsafeAttrs loaded hup hap = Inr [''tags'']
   \<or> permissible postModel action unsafeAttrs loaded hup hap
       = Inl (NoPermissionError ''errors.models.post.notEnoughPermission'')"
  by (simp add: permissible_def Let_def)

text \<open>
  C8. For an actor whose roles include Contributor, \<open>permissible\<close> resolves exactly in
  these cases, given the API key's permission: for \<open>edit\<close>, the request's status is
  absent (falsy) or equal to the post's and the post is a draft; for \<open>add\<close>, the
  request's status is absent or 'draft'; for \<open>destroy\<close>, the post is a draft. Whenever it
  resolves, for any action, the excluded attributes are \<open>tags\<close>; otherwise it rejects with
  a NoPermissionError.
\<close>

theorem contributor_permissible:
  assumes "some_role (user loaded) ''Contributor''"
  shows
    "permissible postModel ''edit'' unsafeAttrs loaded hasUserPermission hasApiKeyPermission =
       (if (\<not> truthy (unsafeAttrs ''status'') \<or> unsafeAttrs ''status'' = Str ''draft'')
           \<and> get postModel ''status'' = Str ''draft'' \<and> hasApiKeyPermission
        then Inr [''tags'']
        else Inl (NoPermissionError ''errors.models.post.notEnoughPermission''))
     \<and> permissible postModel ''add'' unsafeAttrs loaded hasUserPermission hasApiKeyPermission =
       (if (\<not> truthy (unsafeAttrs ''status'') \<or> unsafeAttrs ''status'' = Str ''draft'')
           \<and> hasApiKeyPermission
        then Inr [''tags'']
        else Inl (NoPermissionError ''errors.models.post.notEnoughPermission''))
     \<and> permissible postModel ''destroy'' unsafeAttrs loaded hasUserPermission hasApiKeyPermission =
       (if get postModel ''status'' = Str ''draft'' \<and> hasApiKeyPermission
        then Inr [''tags'']
        else Inl (NoPermissionError ''errors.models.post.notEnoughPermission''))
     \<and> (permissible postModel action unsafeAttrs loaded hasUserPermission hasApiKeyPermission
           = Inr [''tags'']
         \<or> permissible postModel action unsafeAttrs loaded hasUserPermission hasApiKeyPermission
           = Inl (NoPermissionError ''errors.models.post.notEnoughPermission''))"
  using contributor_edit [OF assms] contributor_add [OF assms] contributor_destroy [OF assms]
    contributor_any_action [OF assms]
  by blast

theorem contributor_permissible_witness:
  "some_role (user contributor) ''Contributor''
   \<and> permissible (fetched draftAttrs) ''edit'' noAttributes contributor True True
       = Inr [''tags'']
   \<and> permissible (fetched draftAttrs) ''edit'' (noAttributes(''status'' := Str ''published''))
       contributor True True
       = Inl (NoPermissionError ''errors.models.post.notEnoughPermission'')
   \<and> permissible (fetched publishedAttrs) ''edit'' noAttributes contributor True True
       = Inl (NoPermissionError ''errors.models.post.notEnoughPermission'')
   \<and> permissible (fetched draftAttrs) ''add'' (noAttributes(''status'' := Str ''draft''))
       contributor True True
       = Inr [''tags'']
   \<and> permissible (fetched draftAttrs) ''add'' (noAttributes(''status'' := Str ''scheduled''))
       contributor True True
       = Inl (NoPermissionError ''errors.models.post.notEnoughPermission'')
   \<and> permissible (fetched publishedAttrs) ''destroy'' noAttributes contributor True True
       = Inl (NoPermissionError ''errors.models.post.notEnoughPermission'')
   \<and> permissible (fetched draftAttrs) ''destroy'' noAttributes contributor True False
       = Inl (NoPermissionError ''errors.models.post.notEnoughPermission'')"
proof -
  have c: "some_role (user contributor) ''Contributor''"
    by (simp add: some_role_def contributor_def)
  have draft: "get (fetched draftAttrs) ''status'' = Str ''draft''"
    by (simp add: draftAttrs_def)
  have published: "get (fetched publishedAttrs) ''status'' \<noteq> Str ''draft''"
    by (simp add: publishedAttrs_def)
  show ?thesis
    using c draft published
      contributor_permissible [OF c, of "fetched draftAttrs" noAttributes True True "''edit''"]
      contributor_permissible [OF c, of "fetched draftAttrs"
        "noAttributes(''status'' := Str ''published'')" True True "''edit''"]
      contributor_permissible [OF c, of "fetched publishedAttrs" noAttributes True True "''edit''"]
      contributor_permissible [OF c, of "fetched draftAttrs"
        "noAttributes(''status'' := Str ''draft'')" True True "''edit''"]
      contributor_permissible [OF c, of "fetched draftAttrs"
        "noAttributes(''status'' := Str ''scheduled'')" True True "''edit''"]
      contributor_permissible [OF c, of "fetched draftAttrs" noAttributes True False "''edit''"]
    by (simp add: noAttributes_def)
qed




lemma revertField_eq: "revertField m f = set_attr m f (previous m f)"
  by (simp add: revertField_def hasChanged_def set_attr_same)

lemma revertGeneratedFields_eq:
  "\<not> migrating opts \<Longrightarrow>
   revertGeneratedFields opts m =
     set_attr (set_attr m ''html'' (previous m ''html'')) ''plaintext'' (previous m ''plaintext'')"
  by (simp add: revertGeneratedFields_def generatedFields_def revertField_eq)

lemma revertGeneratedFields_ignores:
  assumes "\<not> migrating opts"
  shows "revertGeneratedFields opts (set_attr (set_attr b ''html'' h) ''plaintext'' p)
           = revertGeneratedFields opts b"
proof -
  have "set_attr (set_attr (set_attr b ''html'' h) ''plaintext'' p) ''html'' v
          = set_attr (set_attr b ''html'' v) ''plaintext'' p" for v
    by (simp add: set_attr_swap [of "''plaintext''" "''html''"])
  then show ?thesis
    by (simp add: revertGeneratedFields_eq [OF assms])
qed

lemma renderHtml_cases:
  assumes "renderHtml E opts x = Inr r"
  shows "r = x \<or> (\<exists>h. render E (get x ''mobiledoc'') = Some h \<and> r = set_attr x ''html'' h)"
  using assms by (auto simp: renderHtml_def split: if_splits option.splits)

lemma updatePlaintext_cases:
  "get (updatePlaintext E r) ''plaintext'' = get r ''plaintext''
   \<or> get (updatePlaintext E r) ''plaintext'' = newPlaintext E r"
  by (simp add: updatePlaintext_def)

lemma saved_generated_fields:
  assumes "\<not> migrating opts"
    and "onSaving E this opts = Inr m'"
  shows "(get m' ''html'' = previous (hookResult E opts this) ''html''
          \<or> render E (get m' ''mobiledoc'') = Some (get m' ''html''))
       \<and> (get m' ''plaintext'' = previous (hookResult E opts this) ''plaintext''
          \<or> get m' ''plaintext'' = newPlaintext E m')"
proof -
  define b where "b = hookResult E opts this"
  define x where "x = forceRerender E opts
                        (transformUrls E (defaultMobiledoc E (revertGeneratedFields opts b)))"
  from assms(2) obtain q where
    after: "afterBaseHook E opts this b = Inr q"
    and m': "m' = sequence_ops E opts this q"
    unfolding b_def by (rule onSaving_Inr)
  from after obtain r where
    r: "renderHtml E opts x = Inr r"
    and q: "q = setSendEmailWhenPublished opts this
                  (setPublishedBy E opts this
                    (setPublishedAt E this (sanitizeTitle E opts (updatePlaintext E r))))"
    unfolding x_def by (rule afterBaseHook_Inr)
  have x_html: "get x ''html'' = previous b ''html''"
    and x_plain: "get x ''plaintext'' = previous b ''plaintext''"
    using assms(1)
    by (simp_all add: x_def transformUrls_get url_keys revertGeneratedFields_get)
  have html: "get m' ''html'' = get r ''html''"
    and body: "get m' ''mobiledoc'' = get r ''mobiledoc''"
    and plain: "get m' ''plaintext'' = get (updatePlaintext E r) ''plaintext''"
    by (simp_all add: m' q sequence_ops_get)
  have r_body: "get r ''mobiledoc'' = get x ''mobiledoc''"
    and r_plain: "get r ''plaintext'' = get x ''plaintext''"
    by (simp_all add: renderHtml_get [OF r])
  have c1: "get m' ''html'' = previous b ''html''
            \<or> render E (get m' ''mobiledoc'') = Some (get m' ''html'')"
    using renderHtml_cases [OF r] by (auto simp: html body x_html)
  have "newPlaintext E r = newPlaintext E m'"
    by (simp add: newPlaintext_def html)
  with updatePlaintext_cases [of E r]
  have c2: "get m' ''plaintext'' = previous b ''plaintext''
            \<or> get m' ''plaintext'' = newPlaintext E m'"
    by (auto simp: plain r_plain x_plain)
  from c1 c2 show ?thesis
    unfolding b_def by blast
qed

text \<open>
  C10. In a save that is not a migration, the guard on the generated fields leaves html
  and plaintext at their previous values, whatever the model carries for them when the
  inherited hook returns; the rest of the save does not depend on the html and plaintext
  the model carried there; and when the save resolves, the saved html is the previous
  html or what the renderer makes of the saved body, and the saved plaintext is the
  previous plaintext or the text of the saved html (null for a null html).
\<close>

theorem generated_fields_not_overridable:
  assumes "\<not> migrating opts"
  shows "get (revertGeneratedFields opts b) ''html'' = previous b ''html''
       \<and> get (revertGeneratedFields opts b) ''plaintext'' = previous b ''plaintext''
       \<and> afterBaseHook E opts entry (set_attr (set_attr b ''html'' html) ''plaintext'' plaintext)
           = afterBaseHook E opts entry b
       \<and> (onSaving E this opts = Inr m' \<longrightarrow>
            (get m' ''html'' = previous (hookResult E opts this) ''html''
             \<or> render E (get m' ''mobiledoc'') = Some (get m' ''html''))
            \<and> (get m' ''plaintext'' = previous (hookResult E opts this) ''plaintext''
               \<or> get m' ''plaintext'' = newPlaintext E m'))"
proof -
  have "afterBaseHook E opts entry (set_attr (set_attr b ''html'' html) ''plaintext'' plaintext)
          = afterBaseHook E opts entry b"
    by (simp add: afterBaseHook_def revertGeneratedFields_ignores [OF assms])
  with assms saved_generated_fields [OF assms, of E this m'] show ?thesis
    by (simp add: revertGeneratedFields_get)
qed

theorem generated_fields_not_overridable_witness:
  "\<not> migrating exampleOptions
   \<and> get (revertGeneratedFields exampleOptions
            (set_attr (set_attr (fetched draftAttrs) ''html'' (Str ''<b>mine</b>''))
               ''plaintext'' (Str ''mine'')))
        ''html'' = Str ''<p>old</p>''
   \<and> (case onSaving exampleEnv
              (set_attr (set_attr (fetched draftAttrs) ''html'' (Str ''<b>mine</b>''))
                 ''plaintext'' (Str ''mine''))
              exampleOptions of
         Inl r \<Rightarrow> False
       | Inr m' \<Rightarrow> get m' ''html'' = Str ''<p>old</p>'' \<and> get m' ''plaintext'' = Str ''<p>old</p>'')"
proof -
  let ?mine = "set_attr (set_attr (fetched draftAttrs) ''html'' (Str ''<b>mine</b>''))
                 ''plaintext'' (Str ''mine'')"
  have opts: "\<not> migrating exampleOptions"
    by (simp add: exampleOptions_fields)
  have "case onSaving exampleEnv ?mine exampleOptions of
          Inl r \<Rightarrow> False
        | Inr m' \<Rightarrow> get m' ''mobiledoc'' = Str ''old''"
    by (simp add: onSaving_defs example_defs)
  then obtain m' where saved: "onSaving exampleEnv ?mine exampleOptions = Inr m'"
    and body: "get m' ''mobiledoc'' = Str ''old''"
    by (cases "onSaving exampleEnv ?mine exampleOptions") auto
  have hook: "hookResult exampleEnv exampleOptions ?mine = ?mine"
    by (simp add: onSaving_defs example_defs)
  have prev: "previous (hookResult exampleEnv exampleOptions ?mine) ''html'' = Str ''<p>old</p>''"
    "previous (hookResult exampleEnv exampleOptions ?mine) ''plaintext'' = Str ''<p>old</p>''"
    "previous ?mine ''html'' = Str ''<p>old</p>''"
    unfolding hook by (simp_all add: example_defs)
  have rendered: "render exampleEnv (Str ''old'') = Some (Str ''<p>old</p>'')"
    and plain_text: "htmlToText exampleEnv (Str ''<p>old</p>'') = Str ''<p>old</p>''"
    by (simp_all add: exampleEnv_fields)
  note T = generated_fields_not_overridable [OF opts, of "?mine" exampleEnv "fetched draftAttrs"
      Undefined Undefined "?mine" m']
  from T saved
  have saved_fields:
    "(get m' ''html'' = previous (hookResult exampleEnv exampleOptions ?mine) ''html''
      \<or> render exampleEnv (get m' ''mobiledoc'') = Some (get m' ''html''))
     \<and> (get m' ''plaintext'' = previous (hookResult exampleEnv exampleOptions ?mine) ''plaintext''
        \<or> get m' ''plaintext'' = newPlaintext exampleEnv m')"
    by blast
  then have html: "get m' ''html'' = Str ''<p>old</p>''"
    unfolding prev body rendered by auto
  from saved_fields have plain: "get m' ''plaintext'' = Str ''<p>old</p>''"
    unfolding prev newPlaintext_def html plain_text by auto
  from T have "get (revertGeneratedFields exampleOptions ?mine) ''html''
                 = previous ?mine ''html''"
    by blast
  then have "get (revertGeneratedFields exampleOptions ?mine) ''html'' = Str ''<p>old</p>''"
    unfolding prev .
  with opts saved html plain show ?thesis
    by simp
qed

end
